theory Spec2Isabelle
  imports Main "HOL-Library.Sublist"
begin

section \<open>Data model (internal/k8s client)\<close>

text \<open>
  A Go error that the code makes itself (\<open>fmt.Errorf\<close>) or only passes on is modelled by
  its message (\<open>err.Error()\<close>); a function returning \<open>(T, error)\<close> returns
  \<open>error + T\<close>, with \<open>Inl\<close> for the error.
\<close>

type_synonym error = string

text \<open>
  The error of a list request keeps what kind of value it is beside its message: a
  \<open>*errors.StatusError\<close> of k8s.io/apimachinery, with the HTTP status code and the message
  of the API server's answer (403 is permission denied, 405 method not allowed), or any
  other error value (a transport error of \<open>net/http\<close>, an exceeded deadline, a
  \<open>fmt.Errorf\<close>). The code reads the message only, through \<open>err.Error()\<close>.
\<close>

datatype ListError =
    StatusError int string
  | OtherError string

fun Error :: "ListError \<Rightarrow> string" where
  "Error (StatusError code message) = message"
| "Error (OtherError message) = message"

text \<open>The struct \<open>ResourceInfo\<close>. \<open>Count\<close> is a Go \<open>int\<close>; every value stored into it is
  a slice length or 0, far from the 64-bit bounds, so it is an unbounded \<open>int\<close> here.\<close>

record ResourceInfo =
  Name :: string
  FullName :: string
  DisplayName :: string
  Kind :: string
  ShortName :: string
  APIGroup :: string
  APIVersion :: string
  Namespaced :: bool
  Count :: int

text \<open>The parts of the client-go types the code reads: \<open>metav1.APIResource\<close>,
  \<open>metav1.APIResourceList\<close>, \<open>schema.GroupVersion\<close>, \<open>schema.GroupVersionResource\<close>,
  \<open>metav1.ListOptions\<close> and \<open>unstructured.UnstructuredList\<close>.\<close>

record APIResource =
  ar_Name :: string
  ar_Kind :: string
  ar_Namespaced :: bool
  ar_ShortNames :: "string list"

record APIResourceList =
  GroupVersion :: string
  APIResources :: "APIResource list"

record GroupVersion =
  gv_Group :: string
  gv_Version :: string

record GroupVersionResource =
  Group :: string
  Version :: string
  Resource :: string

record ListOptions =
  Limit :: int
  TimeoutSeconds :: "int option"

type_synonym Unstructured = "(string \<times> string) list"

record UnstructuredList =
  Items :: "Unstructured list"
  Continue :: string

text \<open>The error of \<open>ServerPreferredNamespacedResources\<close>: either
  \<open>*discovery.ErrGroupDiscoveryFailed\<close> (with its map \<open>Groups\<close> of failed group versions,
  as an association list) or any other error.\<close>

datatype discovery_error =
    ErrGroupDiscoveryFailed "(string \<times> error) list"
  | OtherDiscoveryError error

text \<open>Every request sent to the control plane is recorded, in order.\<close>

datatype Call =
    DiscoveryCall
  | ListCall GroupVersionResource string ListOptions

text \<open>The remote side is a function of the requests made so far, so that the same request
  may be answered differently at different moments.\<close>

type_synonym DiscoveryClient = "Call list \<Rightarrow> APIResourceList list \<times> discovery_error option"

type_synonym DynamicClient =
  "Call list \<Rightarrow> GroupVersionResource \<Rightarrow> string \<Rightarrow> ListOptions \<Rightarrow> ListError + UnstructuredList"

text \<open>A line written by \<open>log.Printf\<close>, \<open>fmt.Printf\<close> or \<open>fmt.Sprintf\<close>: the format
  string of the source and its arguments. The arrow and the emoji of the source's
  format strings are left out of the formats (they are not ASCII).\<close>

datatype Arg = S string | I int | D int | B bool

datatype Line = Printf string "Arg list"

text \<open>What surrounds the client: the monotonic clock in nanoseconds (\<open>time.Now()\<close>),
  the time each remote request takes, the requests made, the log, standard output and
  the environment variable \<open>DEBUG\<close>.\<close>

record World =
  now :: int
  latency :: "Call list \<Rightarrow> nat"
  calls :: "Call list"
  logs :: "Line list"
  stdout :: "Line list"
  DEBUG :: string

text \<open>The struct \<open>Client\<close>. \<open>clientset\<close> and \<open>config\<close> are read by \<open>GetNamespaces\<close> and
  \<open>NewClient\<close> only and are left out. Times are nanoseconds on the clock of \<open>World\<close>;
  durations are nanoseconds.\<close>

record Client =
  dynamicClient :: "DynamicClient option"
  discoveryClient :: "DiscoveryClient option"
  resourcesCache :: "ResourceInfo list"
  resourcesCacheTime :: int
  cacheTTL :: int
  namespaceCaches :: "string \<rightharpoonup> ResourceInfo list"
  namespaceCacheTimes :: "string \<rightharpoonup> int"

section \<open>Library functions the code calls\<close>

text \<open>\<open>strings.Contains s substr\<close>.\<close>

fun Contains :: "string \<Rightarrow> string \<Rightarrow> bool" where
  "Contains [] substr = (substr = [])"
| "Contains (c # s) substr = (prefix substr (c # s) \<or> Contains s substr)"

text \<open>\<open>strings.ToLower\<close>. On a string of ASCII bytes only the Go function maps the
  upper-case letters byte by byte; any other string it maps rune by rune through the
  Unicode case tables (\<open>strings.Map(unicode.ToLower, s)\<close>). These tables are not part of
  the repository: the mapping of a string with a byte beyond ASCII is the parameter
  \<open>unicodeLower\<close>, which every function that calls \<open>strings.ToLower\<close> takes.\<close>

definition toLowerChar :: "char \<Rightarrow> char" where
  "toLowerChar c =
     (if (65::nat) \<le> of_char c \<and> of_char c \<le> (90::nat)
      then char_of (of_char c + (32::nat)) else c)"

definition ToLower :: "(string \<Rightarrow> string) \<Rightarrow> string \<Rightarrow> string" where
  "ToLower unicodeLower s =
     (if list_all (\<lambda>c. (of_char c :: nat) < 128) s then map toLowerChar s else unicodeLower s)"

text \<open>\<open>schema.ParseGroupVersion\<close> of k8s.io/apimachinery: the empty string and \<open>/\<close> give
  the empty group version, a string without \<open>/\<close> is a version of the core group,
  \<open>group/version\<close> is split at its only \<open>/\<close>, and a string with more than one \<open>/\<close>
  is an error.\<close>

definition ParseGroupVersion :: "string \<Rightarrow> error + GroupVersion" where
  "ParseGroupVersion gv =
     (if length gv = 0 \<or> gv = ''/'' then Inr \<lparr>gv_Group = '''', gv_Version = ''''\<rparr>
      else if count_list gv CHR ''/'' = 0 then Inr \<lparr>gv_Group = '''', gv_Version = gv\<rparr>
      else if count_list gv CHR ''/'' = 1 then
        Inr \<lparr>gv_Group = takeWhile (\<lambda>c. c \<noteq> CHR ''/'') gv,
             gv_Version = tl (dropWhile (\<lambda>c. c \<noteq> CHR ''/'') gv)\<rparr>
      else Inl (''unexpected GroupVersion string: '' @ gv))"

text \<open>\<open>time.Since t\<close> and \<open>d.Round(time.Second)\<close> (half away from zero; ages are not
  negative on a monotonic clock, and a negative one is left as it is). \<open>time.Since\<close>
  saturates at the bounds of \<open>Duration\<close>; compared with a TTL inside these bounds the
  saturated and the exact difference give the same answer.\<close>

definition Since :: "World \<Rightarrow> int \<Rightarrow> int" where
  "Since w t = now w - t"

definition Second :: int where
  "Second = 1000000000"

definition Minute :: int where
  "Minute = 60 * Second"

definition RoundSecond :: "int \<Rightarrow> int" where
  "RoundSecond d =
     (if d < 0 then d
      else let r = d mod Second in if r + r < Second then d - r else d + Second - r)"

text \<open>Side effects on the world.\<close>

definition logPrintf :: "string \<Rightarrow> Arg list \<Rightarrow> World \<Rightarrow> World" where
  "logPrintf f as w = w\<lparr>logs := logs w @ [Printf f as]\<rparr>"

definition fmtPrintf :: "string \<Rightarrow> Arg list \<Rightarrow> World \<Rightarrow> World" where
  "fmtPrintf f as w = w\<lparr>stdout := stdout w @ [Printf f as]\<rparr>"

definition remote :: "Call \<Rightarrow> World \<Rightarrow> World" where
  "remote c w = w\<lparr>calls := calls w @ [c], now := now w + int (latency w (calls w @ [c]))\<rparr>"

definition len :: "'a list \<Rightarrow> int" where
  "len xs = int (length xs)"

section \<open>Resource Catalog: \<open>Client.GetAPIResources\<close>\<close>

text \<open>The fixed fallback of the source (lines 163 to 169).\<close>

definition coreResources :: "ResourceInfo list" where
  "coreResources =
    [\<lparr>Name = ''pods'', FullName = ''pods'', DisplayName = ''pods'', Kind = ''Pod'',
      ShortName = ''po'', APIGroup = '''', APIVersion = ''v1'', Namespaced = True, Count = 0\<rparr>,
     \<lparr>Name = ''services'', FullName = ''services'', DisplayName = ''services'',
      Kind = ''Service'', ShortName = ''svc'', APIGroup = '''', APIVersion = ''v1'',
      Namespaced = True, Count = 0\<rparr>,
     \<lparr>Name = ''configmaps'', FullName = ''configmaps'', DisplayName = ''configmaps'',
      Kind = ''ConfigMap'', ShortName = ''cm'', APIGroup = '''', APIVersion = ''v1'',
      Namespaced = True, Count = 0\<rparr>,
     \<lparr>Name = ''secrets'', FullName = ''secrets'', DisplayName = ''secrets'', Kind = ''Secret'',
      ShortName = '''', APIGroup = '''', APIVersion = ''v1'', Namespaced = True, Count = 0\<rparr>,
     \<lparr>Name = ''deployments'', FullName = ''deployments.apps'',
      DisplayName = ''deployments (apps)'', Kind = ''Deployment'', ShortName = ''deploy'',
      APIGroup = ''apps'', APIVersion = ''v1'', Namespaced = True, Count = 0\<rparr>]"

text \<open>The body of the inner loop (lines 191 to 213): one discovered resource of a parsed
  group version becomes one \<open>ResourceInfo\<close>.\<close>

definition toResourceInfo :: "GroupVersion \<Rightarrow> APIResource \<Rightarrow> ResourceInfo" where
  "toResourceInfo gv resource =
     (let shortName = (case ar_ShortNames resource of [] \<Rightarrow> '''' | s # _ \<Rightarrow> s);
          fullName = (if gv_Group gv \<noteq> '''' then ar_Name resource @ ''.'' @ gv_Group gv
                      else ar_Name resource);
          displayName = (if gv_Group gv \<noteq> ''''
                         then ar_Name resource @ '' ('' @ gv_Group gv @ '')''
                         else ar_Name resource)
      in \<lparr>Name = ar_Name resource, FullName = fullName, DisplayName = displayName,
          Kind = ar_Kind resource, ShortName = shortName, APIGroup = gv_Group gv,
          APIVersion = gv_Version gv, Namespaced = ar_Namespaced resource, Count = 0\<rparr>)"

text \<open>The inner loop over \<open>resourceList.APIResources\<close>: subresources are skipped, the others
  appended to \<open>resources\<close>.\<close>

fun appendResources :: "GroupVersion \<Rightarrow> APIResource list \<Rightarrow> ResourceInfo list \<Rightarrow> ResourceInfo list" where
  "appendResources gv [] resources = resources"
| "appendResources gv (resource # rest) resources =
     (if Contains (ar_Name resource) ''/'' then appendResources gv rest resources
      else appendResources gv rest (resources @ [toResourceInfo gv resource]))"

text \<open>The outer loop over \<open>resourceLists\<close>: a list whose group version does not parse is
  skipped.\<close>

fun collectResources :: "APIResourceList list \<Rightarrow> ResourceInfo list \<Rightarrow> ResourceInfo list" where
  "collectResources [] resources = resources"
| "collectResources (resourceList # rest) resources =
     (case ParseGroupVersion (GroupVersion resourceList) of
        Inl err \<Rightarrow> collectResources rest resources
      | Inr gv \<Rightarrow> collectResources rest (appendResources gv (APIResources resourceList) resources))"

text \<open>Lines 178 to 223: build the list, store it with the time of the store, return it.\<close>

definition discovered :: "Client \<Rightarrow> World \<Rightarrow> int \<Rightarrow> APIResourceList list \<Rightarrow>
    (error + ResourceInfo list) \<times> Client \<times> World" where
  "discovered c w start resourceLists =
     (let resources = collectResources resourceLists [];
          c' = c\<lparr>resourcesCache := resources, resourcesCacheTime := now w\<rparr>;
          w' = logPrintf ''[DEBUG] API resource discovery completed in %v, cached %d resources''
                 [D (now w - start), I (len resources)] w
      in (Inr resources, c', w'))"

definition GetAPIResources :: "Client \<Rightarrow> World \<Rightarrow> (error + ResourceInfo list) \<times> Client \<times> World" where
  "GetAPIResources c w =
     (case discoveryClient c of
        None \<Rightarrow> (Inl ''no discovery client available'', c, w)
      | Some dc \<Rightarrow>
          if len (resourcesCache c) > 0 \<and> Since w (resourcesCacheTime c) < cacheTTL c then
            (Inr (resourcesCache c), c,
             logPrintf ''[DEBUG] Using cached API resources (%d resources, cached %v ago)''
               [I (len (resourcesCache c)), D (RoundSecond (Since w (resourcesCacheTime c)))] w)
          else
            let w1 = logPrintf ''[DEBUG] Cache miss or expired, discovering API resources...'' [] w;
                start = now w1;
                (resourceLists, err) = dc (calls w1);
                w2 = remote DiscoveryCall w1
            in (case err of
                  None \<Rightarrow> discovered c w2 start resourceLists
                | Some (ErrGroupDiscoveryFailed groups) \<Rightarrow>
                    let w3 = logPrintf ''Warning: Some API groups failed discovery: %v''
                               [I (len groups)] w2
                    in if len resourceLists = 0 then
                         (Inr coreResources, c,
                          logPrintf ''Using core resources fallback: %d resources''
                            [I (len coreResources)] w3)
                       else discovered c w3 start resourceLists
                | Some (OtherDiscoveryError e) \<Rightarrow>
                    (Inl (''failed to discover API resources: '' @ e), c, w2)))"

section \<open>Object Counter: \<open>Client.countResourceObjects\<close>\<close>

text \<open>The Go function returns the pair \<open>(int, error)\<close>; the pair is kept, with \<open>None\<close> for
  a nil error. The first request carries \<open>Limit: 0\<close> and \<open>TimeoutSeconds: 3\<close>, the
  follow-up request the zero \<open>ListOptions\<close>. The context deadline of three seconds is
  part of the remote side: a request that exceeds it is answered by an error.\<close>

definition limitedOptions :: ListOptions where
  "limitedOptions = \<lparr>Limit = 0, TimeoutSeconds = Some 3\<rparr>"

definition unboundedOptions :: ListOptions where
  "unboundedOptions = \<lparr>Limit = 0, TimeoutSeconds = None\<rparr>"

definition gvrOf :: "ResourceInfo \<Rightarrow> GroupVersionResource" where
  "gvrOf resource =
     \<lparr>Group = APIGroup resource, Version = APIVersion resource, Resource = Name resource\<rparr>"

definition countResourceObjects ::
    "Client \<Rightarrow> string \<Rightarrow> ResourceInfo \<Rightarrow> World \<Rightarrow> (int \<times> ListError option) \<times> World" where
  "countResourceObjects c namespace resource w =
     (case dynamicClient c of
        None \<Rightarrow> ((0, Some (OtherError ''no dynamic client available'')), w)
      | Some dyn \<Rightarrow>
          let gvr = gvrOf resource;
              answer = dyn (calls w) gvr namespace limitedOptions;
              w1 = remote (ListCall gvr namespace limitedOptions) w
          in (case answer of
                Inl err \<Rightarrow> ((0, Some err), w1)
              | Inr list \<Rightarrow>
                  if Continue list \<noteq> [] then
                    let answer2 = dyn (calls w1) gvr namespace unboundedOptions;
                        w2 = remote (ListCall gvr namespace unboundedOptions) w1
                    in (case answer2 of
                          Inl err \<Rightarrow> ((0, Some err), w2)
                        | Inr fullList \<Rightarrow> ((len (Items fullList), None), w2))
                  else ((len (Items list), None), w1)))"

section \<open>Namespace Cache: \<open>Client.GetResourcesInNamespace\<close>\<close>

text \<open>The map \<open>skipResources\<close> of lines 249 to 257; a missing key reads as \<open>false\<close>.\<close>

definition skipResources :: "string \<Rightarrow> bool" where
  "skipResources name =
     (case map_of
        [(''bindings'', True),
         (''localsubjectaccessreviews'', True),
         (''selfsubjectaccessreviews'', True),
         (''selfsubjectrulesreviews'', True),
         (''uploadtokenrequests'', True),
         (''tokenrequests'', True),
         (''subjectaccessreviews'', True)] name of
        None \<Rightarrow> False
      | Some b \<Rightarrow> b)"

text \<open>Lines 259 to 263.\<close>

fun filterNamespaced :: "ResourceInfo list \<Rightarrow> ResourceInfo list \<Rightarrow> ResourceInfo list" where
  "filterNamespaced [] namespacedResources = namespacedResources"
| "filterNamespaced (resource # rest) namespacedResources =
     (if Namespaced resource \<and> \<not> skipResources (Name resource)
      then filterNamespaced rest (namespacedResources @ [resource])
      else filterNamespaced rest namespacedResources)"

text \<open>The test of lines 284 and 285 (and 381 and 382) on \<open>err.Error()\<close>, the message of a
  count error.\<close>

definition isPermissionError :: "string \<Rightarrow> bool" where
  "isPermissionError message \<longleftrightarrow>
     Contains message ''does not allow this method'' \<or> Contains message ''forbidden''"

text \<open>One round of the counting loop (lines 272 to 304): \<open>processed\<close> is the counter after
  its increment, \<open>lenAll\<close> is \<open>len(namespacedResources)\<close>. The round returns the element
  with its count set.\<close>

definition countStep ::
    "Client \<Rightarrow> string \<Rightarrow> bool \<Rightarrow> int \<Rightarrow> int \<Rightarrow> ResourceInfo \<Rightarrow> World \<Rightarrow> ResourceInfo \<times> World" where
  "countStep c namespace debugMode lenAll processed resource w =
     (let w1 = (if debugMode \<and> processed \<le> 10
                then logPrintf ''[DEBUG] Counting objects for: %s (%s/%s)''
                       [S (DisplayName resource), S (APIGroup resource), S (APIVersion resource)] w
                else w);
          ((count, err), w2) = countResourceObjects c namespace resource w1;
          (resource', w3) =
            (case err of
               Some e \<Rightarrow>
                 if isPermissionError (Error e) then
                   (resource\<lparr>Count := 0\<rparr>,
                    if debugMode \<and> processed \<le> 10
                    then logPrintf ''[DEBUG]   -> Permission denied (expected)'' [] w2 else w2)
                 else
                   (resource\<lparr>Count := 0\<rparr>,
                    logPrintf ''Warning: Failed to count objects for resource %s: %v''
                      [S (Name resource), S (Error e)] w2)
             | None \<Rightarrow>
                 (resource\<lparr>Count := count\<rparr>,
                  if debugMode \<and> (count > 0 \<or> processed \<le> 10)
                  then logPrintf ''[DEBUG]   -> %d objects found'' [I count] w2 else w2));
          w4 = (if processed mod 20 = 0
                then logPrintf ''Processed %d/%d resources'' [I processed, I lenAll] w3
                else w3)
      in (resource', w4))"

fun countLoop ::
    "Client \<Rightarrow> string \<Rightarrow> bool \<Rightarrow> int \<Rightarrow> int \<Rightarrow> ResourceInfo list \<Rightarrow> World
      \<Rightarrow> ResourceInfo list \<times> World" where
  "countLoop c namespace debugMode lenAll processed [] w = ([], w)"
| "countLoop c namespace debugMode lenAll processed (resource # rest) w =
     (let (resource', w1) = countStep c namespace debugMode lenAll (processed + 1) resource w;
          (rest', w2) = countLoop c namespace debugMode lenAll (processed + 1) rest w1
      in (resource' # rest', w2))"

text \<open>Lines 242 to 314: the scan after a cache miss.\<close>

definition scanNamespace ::
    "Client \<Rightarrow> string \<Rightarrow> World \<Rightarrow> (error + ResourceInfo list) \<times> Client \<times> World" where
  "scanNamespace c namespace w =
     (case GetAPIResources c w of
        (Inl err, c1, w1) \<Rightarrow> (Inl err, c1, w1)
      | (Inr resources, c1, w1) \<Rightarrow>
          let namespacedResources = filterNamespaced resources [];
              w2 = logPrintf
                     (''Counting objects for %d namespaced resources in namespace '%s'' @ [CHR 0x27])
                     [I (len namespacedResources), S namespace] w1;
              debugMode = (DEBUG w2 = ''true'' \<or> DEBUG w2 = ''1'');
              (counted, w3) =
                countLoop c1 namespace debugMode (len namespacedResources) 0 namespacedResources w2;
              w4 = logPrintf (''Completed: Found %d namespaced resources in '%s'' @ [CHR 0x27])
                     [I (len counted), S namespace] w3;
              c2 = c1\<lparr>namespaceCaches := (namespaceCaches c1)(namespace \<mapsto> counted),
                      namespaceCacheTimes := (namespaceCacheTimes c1)(namespace \<mapsto> now w4)\<rparr>;
              w5 = logPrintf (''[DEBUG] Cached %d resources for namespace '%s'' @ [CHR 0x27])
                     [I (len counted), S namespace] w4
          in (Inr counted, c2, w5))"

definition GetResourcesInNamespace ::
    "Client \<Rightarrow> string \<Rightarrow> World \<Rightarrow> (error + ResourceInfo list) \<times> Client \<times> World" where
  "GetResourcesInNamespace c namespace w =
     (case namespaceCaches c namespace of
        Some cachedResources \<Rightarrow>
          (case namespaceCacheTimes c namespace of
             Some cacheTime \<Rightarrow>
               if Since w cacheTime < cacheTTL c then
                 (Inr cachedResources, c,
                  logPrintf
                    ''[DEBUG] Using cached namespace data for '%s' (%d resources, cached %v ago)''
                    [S namespace, I (len cachedResources), D (RoundSecond (Since w cacheTime))] w)
               else
                 scanNamespace c namespace
                   (logPrintf ''[DEBUG] Cache expired for namespace '%s', refreshing...''
                      [S namespace] w)
           | None \<Rightarrow> scanNamespace c namespace w)
      | None \<Rightarrow>
          scanNamespace c namespace
            (logPrintf ''[DEBUG] No cache found for namespace '%s', counting objects...''
               [S namespace] w))"

section \<open>Progress: \<open>Client.GetResourcesInNamespaceWithCallback\<close>\<close>

text \<open>\<open>debugCallback\<close> is a function value or nil; calling it changes the world (in
  \<open>getDebugStream\<close> it sends the message on a channel, or gives up after a second). The
  guarded call \<open>if debugCallback != nil { debugCallback(fmt.Sprintf(...)) }\<close>:\<close>

type_synonym DebugCallback = "Line \<Rightarrow> World \<Rightarrow> World"

definition callback :: "DebugCallback option \<Rightarrow> string \<Rightarrow> Arg list \<Rightarrow> World \<Rightarrow> World" where
  "callback debugCallback f as w =
     (case debugCallback of None \<Rightarrow> w | Some cb \<Rightarrow> cb (Printf f as) w)"

text \<open>Lines 350 to 354: the filter of this path tests \<open>resource.Namespaced\<close> only.\<close>

fun filterNamespacedOnly :: "ResourceInfo list \<Rightarrow> ResourceInfo list \<Rightarrow> ResourceInfo list" where
  "filterNamespacedOnly [] namespacedResources = namespacedResources"
| "filterNamespacedOnly (resource # rest) namespacedResources =
     (if Namespaced resource
      then filterNamespacedOnly rest (namespacedResources @ [resource])
      else filterNamespacedOnly rest namespacedResources)"

text \<open>One round of the loop of lines 365 to 411. The percentage of the progress message
  is computed in \<open>float64\<close> by the source and is not among the arguments kept here.\<close>

definition countStepWithCallback ::
    "Client \<Rightarrow> string \<Rightarrow> DebugCallback option \<Rightarrow> bool \<Rightarrow> int \<Rightarrow> int \<Rightarrow> ResourceInfo \<Rightarrow> World
      \<Rightarrow> ResourceInfo \<times> World" where
  "countStepWithCallback c namespace debugCallback debugMode lenAll processed resource w =
     (let w1 = (if debugCallback \<noteq> None \<and> debugMode \<and> processed \<le> 15
                then callback debugCallback ''Counting objects for: %s (%s/%s)''
                       [S (DisplayName resource), S (APIGroup resource), S (APIVersion resource)] w
                else w);
          w2 = (if debugMode \<and> processed \<le> 10
                then logPrintf ''[DEBUG] Counting objects for: %s (%s/%s)''
                       [S (DisplayName resource), S (APIGroup resource), S (APIVersion resource)] w1
                else w1);
          ((count, err), w3) = countResourceObjects c namespace resource w2;
          (resource', w4) =
            (case err of
               Some e \<Rightarrow>
                 if isPermissionError (Error e) then
                   (resource\<lparr>Count := 0\<rparr>,
                    if debugCallback \<noteq> None \<and> debugMode \<and> processed \<le> 15
                    then callback debugCallback ''  Permission denied (expected)'' [] w3 else w3)
                 else
                   (resource\<lparr>Count := 0\<rparr>,
                    logPrintf ''Warning: Failed to count objects for resource %s: %v''
                      [S (Name resource), S (Error e)] w3)
             | None \<Rightarrow>
                 (resource\<lparr>Count := count\<rparr>,
                  let w' = (if debugCallback \<noteq> None \<and> count > 0
                            then callback debugCallback ''  %s: %d objects found''
                                   [S (DisplayName resource), I count] w3
                            else w3)
                  in if debugMode \<and> (count > 0 \<or> processed \<le> 10)
                     then logPrintf ''[DEBUG]   -> %d objects found'' [I count] w' else w'));
          w5 = (if debugCallback \<noteq> None \<and> (processed mod 10 = 0 \<or> processed = lenAll)
                then callback debugCallback ''Progress: %d%% (%d/%d resources)''
                       [I processed, I lenAll] w4
                else w4);
          w6 = (if processed mod 20 = 0
                then logPrintf ''Processed %d/%d resources'' [I processed, I lenAll] w5
                else w5)
      in (resource', w6))"

fun countLoopWithCallback ::
    "Client \<Rightarrow> string \<Rightarrow> DebugCallback option \<Rightarrow> bool \<Rightarrow> int \<Rightarrow> int \<Rightarrow> ResourceInfo list
      \<Rightarrow> World \<Rightarrow> ResourceInfo list \<times> World" where
  "countLoopWithCallback c namespace debugCallback debugMode lenAll processed [] w = ([], w)"
| "countLoopWithCallback c namespace debugCallback debugMode lenAll processed (resource # rest) w =
     (let (resource', w1) =
            countStepWithCallback c namespace debugCallback debugMode lenAll (processed + 1)
              resource w;
          (rest', w2) =
            countLoopWithCallback c namespace debugCallback debugMode lenAll (processed + 1) rest w1
      in (resource' # rest', w2))"

text \<open>Lines 332 to 424: the scan of this path after a cache miss.\<close>

definition scanNamespaceWithCallback ::
    "(string \<Rightarrow> string) \<Rightarrow> Client \<Rightarrow> string \<Rightarrow> DebugCallback option \<Rightarrow> World
      \<Rightarrow> (error + ResourceInfo list) \<times> Client \<times> World" where
  "scanNamespaceWithCallback unicodeLower c namespace debugCallback w =
     (let w0 = callback debugCallback
                 ''No cache found for namespace '%s', discovering resources...'' [S namespace] w;
          w0' = logPrintf ''[DEBUG] No cache found for namespace '%s', counting objects...''
                  [S namespace] w0
      in case GetAPIResources c w0' of
           (Inl err, c1, w1) \<Rightarrow> (Inl err, c1, w1)
         | (Inr resources, c1, w1) \<Rightarrow>
             let w2 = callback debugCallback
                        (''Found %d API resource types, filtering for namespace '%s'' @ [CHR 0x27])
                        [I (len resources), S namespace] w1;
                 namespacedResources = filterNamespacedOnly resources [];
                 w3 = callback debugCallback
                        (''Counting objects for %d namespaced resources in namespace '%s''
                           @ [CHR 0x27])
                        [I (len namespacedResources), S namespace] w2;
                 w4 = logPrintf
                        (''Counting objects for %d namespaced resources in namespace '%s''
                           @ [CHR 0x27])
                        [I (len namespacedResources), S namespace] w3;
                 debugMode = (ToLower unicodeLower (DEBUG w4) = ''true'');
                 (counted, w5) =
                   countLoopWithCallback c1 namespace debugCallback debugMode
                     (len namespacedResources) 0 namespacedResources w4;
                 w6 = callback debugCallback
                        ''Resource discovery complete! Found %d namespaced resources''
                        [I (len counted)] w5;
                 w7 = logPrintf (''Completed: Found %d namespaced resources in '%s'' @ [CHR 0x27])
                        [I (len counted), S namespace] w6;
                 c2 = c1\<lparr>namespaceCaches := (namespaceCaches c1)(namespace \<mapsto> counted),
                         namespaceCacheTimes := (namespaceCacheTimes c1)(namespace \<mapsto> now w7)\<rparr>;
                 w8 = logPrintf (''[DEBUG] Cached %d resources for namespace '%s'' @ [CHR 0x27])
                        [I (len counted), S namespace] w7
             in (Inr counted, c2, w8))"

definition GetResourcesInNamespaceWithCallback ::
    "(string \<Rightarrow> string) \<Rightarrow> Client \<Rightarrow> string \<Rightarrow> DebugCallback option \<Rightarrow> World
      \<Rightarrow> (error + ResourceInfo list) \<times> Client \<times> World" where
  "GetResourcesInNamespaceWithCallback unicodeLower c namespace debugCallback w =
     (case namespaceCaches c namespace of
        Some cachedResources \<Rightarrow>
          (case namespaceCacheTimes c namespace of
             Some cacheTime \<Rightarrow>
               if Since w cacheTime < cacheTTL c then
                 (Inr cachedResources, c,
                  callback debugCallback
                    ''Using cached data for '%s' (%d resources, cached %v ago)''
                    [S namespace, I (len cachedResources), D (RoundSecond (Since w cacheTime))] w)
               else scanNamespaceWithCallback unicodeLower c namespace debugCallback w
           | None \<Rightarrow> scanNamespaceWithCallback unicodeLower c namespace debugCallback w)
      | None \<Rightarrow> scanNamespaceWithCallback unicodeLower c namespace debugCallback w)"

section \<open>HTTP handlers (cmd/main.go)\<close>

text \<open>The struct \<open>Server\<close>; \<open>k8sClient\<close> is a pointer that may be nil. A request is its path
  variables (\<open>mux.Vars\<close>) and its query parameters; \<open>vars["namespace"]\<close> and
  \<open>r.URL.Query().Get("search")\<close> read the empty string for a missing key.\<close>

record Server =
  k8sClient :: "Client option"
  debug :: bool

record Request =
  vars :: "(string \<times> string) list"
  query :: "(string \<times> string) list"

definition Get :: "(string \<times> string) list \<Rightarrow> string \<Rightarrow> string" where
  "Get kvs key = (case map_of kvs key of None \<Rightarrow> '''' | Some v \<Rightarrow> v)"

text \<open>What a handler writes: the status code, the content type and the body. The body of
  \<open>getNamespaceResources\<close> is the map with the keys \<open>resources\<close>, \<open>count\<close>,
  \<open>totalObjects\<close>, \<open>namespace\<close> and \<open>debug\<close>.\<close>

record ResourcesResponse =
  resp_resources :: "ResourceInfo list"
  resp_count :: int
  resp_totalObjects :: int
  resp_namespace :: string
  resp_debug :: bool

datatype Body =
    ErrorText string
  | StatusJSON "(string \<times> string) list"
  | ResourcesJSON ResourcesResponse

record Response =
  StatusCode :: nat
  ContentType :: string
  Body :: Body

text \<open>\<open>http.Error(w, msg, code)\<close>: the status code, the plain-text content type, and the
  message followed by a newline as the body.\<close>

definition httpError :: "string \<Rightarrow> nat \<Rightarrow> Response" where
  "httpError msg code =
     \<lparr>StatusCode = code, ContentType = ''text/plain; charset=utf-8'',
      Body = ErrorText (msg @ [CHR 0x0A])\<rparr>"

text \<open>\<open>Server.clearCache\<close>, lines 109 to 118: one line on standard output when a client is
  there, then the acknowledgement. No field of the client is written.\<close>

definition clearCache :: "Server \<Rightarrow> World \<Rightarrow> Response \<times> Server \<times> World" where
  "clearCache s w =
     (let w1 = (if k8sClient s \<noteq> None
                then fmtPrintf ''Cache cleared by user request'' [] w else w)
      in (\<lparr>StatusCode = 200, ContentType = ''application/json'',
           Body = StatusJSON [(''status'', ''cache cleared'')]\<rparr>, s, w1))"

text \<open>The filter loop of \<open>Server.getNamespaceResources\<close>, lines 249 to 267.\<close>

fun filterLoop ::
    "(string \<Rightarrow> string) \<Rightarrow> string \<Rightarrow> bool \<Rightarrow> string \<Rightarrow> ResourceInfo list \<Rightarrow> ResourceInfo list \<Rightarrow> int
      \<Rightarrow> ResourceInfo list \<times> int" where
  "filterLoop unicodeLower search showOnlyPopulated apiGroup [] filtered totalObjects =
     (filtered, totalObjects)"
| "filterLoop unicodeLower search showOnlyPopulated apiGroup (resource # rest) filtered totalObjects =
     (let totalObjects' = totalObjects + Count resource
      in if showOnlyPopulated \<and> Count resource = 0 then
           filterLoop unicodeLower search showOnlyPopulated apiGroup rest filtered totalObjects'
         else if apiGroup \<noteq> [] \<and> APIVersion resource \<noteq> apiGroup then
           filterLoop unicodeLower search showOnlyPopulated apiGroup rest filtered totalObjects'
         else if search \<noteq> []
                 \<and> \<not> Contains (ToLower unicodeLower (Name resource)) search
                 \<and> \<not> Contains (ToLower unicodeLower (Kind resource)) search then
           filterLoop unicodeLower search showOnlyPopulated apiGroup rest filtered totalObjects'
         else
           filterLoop unicodeLower search showOnlyPopulated apiGroup rest (filtered @ [resource]) totalObjects')"

text \<open>\<open>Server.getNamespaceResources\<close>. The blocks guarded by \<open>if debug\<close> (log lines and the
  additional keys \<open>debugInfo\<close>, \<open>totalDiscovered\<close>, \<open>processingTime\<close>, \<open>cacheInfo\<close>,
  \<open>filters\<close>) write none of the five keys kept here and are left out.\<close>

definition getNamespaceResources ::
    "(string \<Rightarrow> string) \<Rightarrow> Server \<Rightarrow> Request \<Rightarrow> World \<Rightarrow> Response \<times> Server \<times> World" where
  "getNamespaceResources unicodeLower s r w =
     (case k8sClient s of
        None \<Rightarrow> (httpError ''No Kubernetes connection'' 503, s, w)
      | Some c \<Rightarrow>
          let namespace = Get (vars r) ''namespace'';
              w1 = fmtPrintf ''Loading resources for namespace: %s'' [S namespace] w
          in (case GetResourcesInNamespace c namespace w1 of
                (Inl err, c1, w2) \<Rightarrow> (httpError err 500, s\<lparr>k8sClient := Some c1\<rparr>, w2)
              | (Inr resources, c1, w2) \<Rightarrow>
                  let search = ToLower unicodeLower (Get (query r) ''search'');
                      showOnlyPopulated = (Get (query r) ''populated'' = ''true'');
                      apiGroup = Get (query r) ''apiGroup'';
                      (filtered, totalObjects) =
                        filterLoop unicodeLower search showOnlyPopulated apiGroup resources [] 0;
                      w3 = fmtPrintf ''Found %d resources (%d total objects) in namespace %s''
                             [I (len filtered), I totalObjects, S namespace] w2
                  in (\<lparr>StatusCode = 200, ContentType = ''application/json'',
                       Body = ResourcesJSON
                         \<lparr>resp_resources = filtered, resp_count = len filtered,
                          resp_totalObjects = totalObjects, resp_namespace = namespace,
                          resp_debug = debug s\<rparr>\<rparr>,
                      s\<lparr>k8sClient := Some c1\<rparr>, w3)))"

section \<open>Names for conditions of the specification\<close>

text \<open>The test of line 144: the catalog cache is not empty and younger than the TTL.\<close>

definition cacheValid :: "Client \<Rightarrow> World \<Rightarrow> bool" where
  "cacheValid c w \<longleftrightarrow> len (resourcesCache c) > 0 \<and> Since w (resourcesCacheTime c) < cacheTTL c"

text \<open>What the two loops of \<open>GetAPIResources\<close> make of one resource list.\<close>

definition resourcesOfList :: "APIResourceList \<Rightarrow> ResourceInfo list" where
  "resourcesOfList resourceList =
     (case ParseGroupVersion (GroupVersion resourceList) of
        Inl err \<Rightarrow> []
      | Inr gv \<Rightarrow>
          map (toResourceInfo gv)
            (filter (\<lambda>resource. \<not> Contains (ar_Name resource) ''/'') (APIResources resourceList)))"




text \<open>A warning is a log line whose format starts with \<open>Warning:\<close>.\<close>

fun isWarning :: "Line \<Rightarrow> bool" where
  "isWarning (Printf f as) = prefix ''Warning:'' f"

text \<open>The kinds of error the specification names: permission denied is the status 403,
  method not allowed the status 405 (\<open>errors.IsForbidden\<close> and
  \<open>errors.IsMethodNotSupported\<close> of k8s.io/apimachinery); a transport error, a timeout and
  a server error are neither.\<close>

definition isForbidden :: "ListError \<Rightarrow> bool" where
  "isForbidden e = (case e of StatusError code message \<Rightarrow> code = 403 | OtherError message \<Rightarrow> False)"

definition isMethodNotAllowed :: "ListError \<Rightarrow> bool" where
  "isMethodNotAllowed e =
     (case e of StatusError code message \<Rightarrow> code = 405 | OtherError message \<Rightarrow> False)"

text \<open>What one count attempt must leave, in the words of the amended statement: the count
  that was returned, or 0 after any error; no warning after a success or after an error
  whose message contains one of the two phrases, one warning naming the resource and the
  error after any other error.\<close>

definition specCount :: "int \<times> ListError option \<Rightarrow> int" where
  "specCount outcome = (case snd outcome of None \<Rightarrow> fst outcome | Some e \<Rightarrow> 0)"

definition specWarnings :: "ResourceInfo \<Rightarrow> int \<times> ListError option \<Rightarrow> Line list" where
  "specWarnings resource outcome =
     (case snd outcome of
        None \<Rightarrow> []
      | Some e \<Rightarrow>
          if Contains (Error e) ''does not allow this method'' \<or> Contains (Error e) ''forbidden''
          then []
          else [Printf ''Warning: Failed to count objects for resource %s: %v''
                  [S (Name resource), S (Error e)]])"

section \<open>An example cluster\<close>

text \<open>A small cluster on which the theorems below are exercised: the core group with pods
  (and the subresource \<open>pods/log\<close>), bindings, configmaps and secrets, and the group
  \<open>apps\<close> with deployments. Listing pods gives two objects; bindings cannot be listed;
  configmaps time out; secrets are forbidden; the first page of deployments carries a
  continuation token and the full list has three objects.\<close>

definition apiResource :: "string \<Rightarrow> string \<Rightarrow> string list \<Rightarrow> APIResource" where
  "apiResource name kind shortNames =
     \<lparr>ar_Name = name, ar_Kind = kind, ar_Namespaced = True, ar_ShortNames = shortNames\<rparr>"

definition exampleLists :: "APIResourceList list" where
  "exampleLists =
     [\<lparr>GroupVersion = ''v1'',
       APIResources =
         [apiResource ''pods'' ''Pod'' [''po''],
          apiResource ''pods/log'' ''Pod'' [],
          apiResource ''bindings'' ''Binding'' [],
          apiResource ''configmaps'' ''ConfigMap'' [''cm''],
          apiResource ''secrets'' ''Secret'' []]\<rparr>,
      \<lparr>GroupVersion = ''apps/v1'',
       APIResources = [apiResource ''deployments'' ''Deployment'' [''deploy'']]\<rparr>]"

definition exampleItems :: "nat \<Rightarrow> Unstructured list" where
  "exampleItems n = replicate n [(''kind'', ''Object'')]"

definition exampleDynamic :: DynamicClient where
  "exampleDynamic history gvr namespace opts =
     (if Resource gvr = ''pods'' then Inr \<lparr>Items = exampleItems 2, Continue = []\<rparr>
      else if Resource gvr = ''bindings'' then
        Inl (StatusError 405 ''the server does not allow this method on the requested resource'')
      else if Resource gvr = ''secrets'' then
        Inl (StatusError 403
               ''secrets is forbidden: User cannot list resource secrets in the namespace'')
      else if Resource gvr = ''deployments'' then
        (if TimeoutSeconds opts = None then Inr \<lparr>Items = exampleItems 3, Continue = []\<rparr>
         else Inr \<lparr>Items = exampleItems 1, Continue = ''page2''\<rparr>)
      else Inl (OtherError ''context deadline exceeded''))"

definition exampleDiscovery :: DiscoveryClient where
  "exampleDiscovery history = (exampleLists, None)"

definition failedGroups :: "(string \<times> error) list" where
  "failedGroups =
     [(''metrics.k8s.io/v1beta1'', ''the server is currently unable to handle the request''),
      (''custom.metrics.k8s.io/v1beta1'', ''the server is currently unable to handle the request'')]"

definition partialDiscovery :: DiscoveryClient where
  "partialDiscovery history = (exampleLists, Some (ErrGroupDiscoveryFailed failedGroups))"

definition failingDiscovery :: DiscoveryClient where
  "failingDiscovery history = ([], Some (ErrGroupDiscoveryFailed failedGroups))"

text \<open>The client as \<open>NewClient\<close> builds it (empty caches, a TTL of five minutes), at a
  moment 1000 seconds on the clock, each remote request taking a millisecond.\<close>

definition exampleClient :: Client where
  "exampleClient =
     \<lparr>dynamicClient = Some exampleDynamic, discoveryClient = Some exampleDiscovery,
      resourcesCache = [], resourcesCacheTime = 0, cacheTTL = 5 * Minute,
      namespaceCaches = Map.empty, namespaceCacheTimes = Map.empty\<rparr>"

definition exampleWorld :: World where
  "exampleWorld =
     \<lparr>now = 1000 * Second, latency = (\<lambda>history. 1000000), calls = [], logs = [],
      stdout = [], DEBUG = []\<rparr>"

definition failingClient :: Client where
  "failingClient = exampleClient\<lparr>discoveryClient := Some failingDiscovery\<rparr>"

definition partialClient :: Client where
  "partialClient = exampleClient\<lparr>discoveryClient := Some partialDiscovery\<rparr>"

text \<open>The counts of namespace \<open>default\<close> in the example cluster, and a client whose
  caches were filled at 900 seconds on the clock.\<close>

definition exampleCounted :: "ResourceInfo list" where
  "exampleCounted =
    [\<lparr>Name = ''pods'', FullName = ''pods'', DisplayName = ''pods'', Kind = ''Pod'',
      ShortName = ''po'', APIGroup = [], APIVersion = ''v1'', Namespaced = True, Count = 2\<rparr>,
     \<lparr>Name = ''configmaps'', FullName = ''configmaps'', DisplayName = ''configmaps'',
      Kind = ''ConfigMap'', ShortName = ''cm'', APIGroup = [], APIVersion = ''v1'',
      Namespaced = True, Count = 0\<rparr>,
     \<lparr>Name = ''secrets'', FullName = ''secrets'', DisplayName = ''secrets'', Kind = ''Secret'',
      ShortName = [], APIGroup = [], APIVersion = ''v1'', Namespaced = True, Count = 0\<rparr>,
     \<lparr>Name = ''deployments'', FullName = ''deployments.apps'',
      DisplayName = ''deployments (apps)'', Kind = ''Deployment'', ShortName = ''deploy'',
      APIGroup = ''apps'', APIVersion = ''v1'', Namespaced = True, Count = 3\<rparr>]"

definition warmClient :: Client where
  "warmClient =
     exampleClient\<lparr>resourcesCache := collectResources exampleLists [],
       resourcesCacheTime := 900 * Second,
       namespaceCaches := [''default'' \<mapsto> exampleCounted],
       namespaceCacheTimes := [''default'' \<mapsto> 900 * Second]\<rparr>"

text \<open>The catalog entry of the example cluster with a given name.\<close>

definition exampleResource :: "string \<Rightarrow> ResourceInfo" where
  "exampleResource name = hd (filter (\<lambda>r. Name r = name) (collectResources exampleLists []))"

text \<open>The example cluster's list with the deny-listed \<open>bindings\<close> counted as well, a server
  on the warm client, and three requests for namespace \<open>default\<close>: without a filter, with
  \<open>apiGroup=apps\<close> and with \<open>apiGroup=v1\<close>.\<close>

definition exampleCountedAll :: "ResourceInfo list" where
  "exampleCountedAll =
     [exampleCounted ! 0, (exampleResource ''bindings'')\<lparr>Count := 0\<rparr>, exampleCounted ! 1,
      exampleCounted ! 2, exampleCounted ! 3]"

definition warmServer :: Server where
  "warmServer = \<lparr>k8sClient = Some warmClient, debug = False\<rparr>"

definition exampleRequest :: Request where
  "exampleRequest = \<lparr>vars = [(''namespace'', ''default'')], query = []\<rparr>"

definition appsRequest :: Request where
  "appsRequest = \<lparr>vars = [(''namespace'', ''default'')], query = [(''apiGroup'', ''apps'')]\<rparr>"

definition v1Request :: Request where
  "v1Request = \<lparr>vars = [(''namespace'', ''default'')], query = [(''apiGroup'', ''v1'')]\<rparr>"

text \<open>Two more clusters. In the first no list request gets through: each fails in the
  transport with a refused connection, and the message of such an error quotes the URL of
  the request, the namespace in it. In the second the answer to every list request is the
  status 403 with the body \<open>Forbidden\<close>, as a proxy in front of the API server writes it.\<close>

definition refusedError :: "string \<Rightarrow> GroupVersionResource \<Rightarrow> ListError" where
  "refusedError namespace gvr =
     OtherError
       (''Get '' @ [CHR 0x22] @ ''https://10.96.0.1:443''
        @ (if Group gvr = [] then ''/api/'' else ''/apis/'' @ Group gvr @ ''/'') @ Version gvr
        @ ''/namespaces/'' @ namespace @ ''/'' @ Resource gvr @ ''?timeoutSeconds=3''
        @ [CHR 0x22] @ '': dial tcp 10.96.0.1:443: connect: connection refused'')"

definition refusedDynamic :: DynamicClient where
  "refusedDynamic history gvr namespace opts = Inl (refusedError namespace gvr)"

definition refusedClient :: Client where
  "refusedClient = exampleClient\<lparr>dynamicClient := Some refusedDynamic\<rparr>"

definition deniedError :: ListError where
  "deniedError = StatusError 403 ''Forbidden''"

definition deniedDynamic :: DynamicClient where
  "deniedDynamic history gvr namespace opts = Inl deniedError"

definition deniedClient :: Client where
  "deniedClient = exampleClient\<lparr>dynamicClient := Some deniedDynamic\<rparr>"

section \<open>Lemmas on the world and the catalog\<close>

lemma calls_logPrintf [simp]: "calls (logPrintf f as w) = calls w"
  and now_logPrintf [simp]: "now (logPrintf f as w) = now w"
  and latency_logPrintf [simp]: "latency (logPrintf f as w) = latency w"
  and DEBUG_logPrintf [simp]: "DEBUG (logPrintf f as w) = DEBUG w"
  and stdout_logPrintf [simp]: "stdout (logPrintf f as w) = stdout w"
  and logs_logPrintf: "logs (logPrintf f as w) = logs w @ [Printf f as]"
  by (simp_all add: logPrintf_def)

lemma calls_remote: "calls (remote call w) = calls w @ [call]"
  and logs_remote [simp]: "logs (remote call w) = logs w"
  and DEBUG_remote [simp]: "DEBUG (remote call w) = DEBUG w"
  and latency_remote [simp]: "latency (remote call w) = latency w"
  and now_remote_ge: "now w \<le> now (remote call w)"
  by (simp_all add: remote_def)

lemma appendResources_eq:
  "appendResources gv rs acc =
     acc @ map (toResourceInfo gv) (filter (\<lambda>resource. \<not> Contains (ar_Name resource) ''/'') rs)"
  by (induction rs arbitrary: acc) simp_all

lemma collectResources_eq:
  "collectResources ls acc = acc @ concat (map resourcesOfList ls)"
  by (induction ls arbitrary: acc)
     (simp_all add: resourcesOfList_def appendResources_eq split: sum.splits)

text \<open>The path of \<open>GetAPIResources\<close> after a cache miss, with the test of the cache gone.\<close>

lemma GetAPIResources_miss:
  assumes "discoveryClient c = Some dc" and "\<not> cacheValid c w"
  shows "GetAPIResources c w =
     (let w1 = logPrintf ''[DEBUG] Cache miss or expired, discovering API resources...'' [] w;
          w2 = remote DiscoveryCall w1
      in case dc (calls w) of
           (resourceLists, None) \<Rightarrow> discovered c w2 (now w) resourceLists
         | (resourceLists, Some (ErrGroupDiscoveryFailed groups)) \<Rightarrow>
             (let w3 = logPrintf ''Warning: Some API groups failed discovery: %v''
                         [I (len groups)] w2
              in if resourceLists = [] then
                   (Inr coreResources, c,
                    logPrintf ''Using core resources fallback: %d resources''
                      [I (len coreResources)] w3)
                 else discovered c w3 (now w) resourceLists)
         | (resourceLists, Some (OtherDiscoveryError e)) \<Rightarrow>
             (Inl (''failed to discover API resources: '' @ e), c, w2))"
proof -
  have nv: "\<not> (len (resourcesCache c) > 0 \<and> Since w (resourcesCacheTime c) < cacheTTL c)"
    using assms(2) unfolding cacheValid_def .
  show ?thesis
    unfolding GetAPIResources_def assms(1) option.case if_not_P [OF nv]
    by (simp add: Let_def len_def split: prod.splits option.splits discovery_error.splits)
qed


lemma GetAPIResources_fallback:
  assumes "discoveryClient c = Some dc" and "\<not> cacheValid c w"
    and "dc (calls w) = ([], Some (ErrGroupDiscoveryFailed groups))"
  shows "GetAPIResources c w =
     (Inr coreResources, c,
      logPrintf ''Using core resources fallback: %d resources'' [I (len coreResources)]
        (logPrintf ''Warning: Some API groups failed discovery: %v'' [I (len groups)]
          (remote DiscoveryCall
            (logPrintf ''[DEBUG] Cache miss or expired, discovering API resources...'' [] w))))"
  by (simp add: GetAPIResources_miss [OF assms(1,2)] assms(3) Let_def)

lemma GetAPIResources_miss_calls:
  assumes "discoveryClient c = Some dc" and "\<not> cacheValid c w"
  shows "calls (snd (snd (GetAPIResources c w))) = calls w @ [DiscoveryCall]"
  by (simp add: GetAPIResources_miss [OF assms] discovered_def Let_def calls_remote
           split: prod.splits option.splits discovery_error.splits)

lemma GetAPIResources_partial:
  assumes "discoveryClient c = Some dc" and "\<not> cacheValid c w"
    and "dc (calls w) = (resourceLists, Some (ErrGroupDiscoveryFailed groups))"
    and "resourceLists \<noteq> []"
  shows "fst (GetAPIResources c w) = Inr (collectResources resourceLists [])"
  by (simp add: GetAPIResources_miss [OF assms(1,2)] assms(3,4) discovered_def Let_def)

lemma GetAPIResources_success:
  assumes "discoveryClient c = Some dc" and "\<not> cacheValid c w"
    and "dc (calls w) = (resourceLists, None)"
  shows "fst (GetAPIResources c w) = Inr (collectResources resourceLists [])"
  by (simp add: GetAPIResources_miss [OF assms(1,2)] assms(3) discovered_def Let_def)

lemma cacheValid_later:
  assumes "\<not> cacheValid c w" and "now w \<le> now w2"
  shows "\<not> cacheValid c w2"
  using assms by (auto simp: cacheValid_def Since_def)

lemma not_cacheValid_empty: "resourcesCache c = [] \<Longrightarrow> \<not> cacheValid c w"
  by (simp add: cacheValid_def len_def)






lemma coreResources_facts:
  "length coreResources = 5"
  "map FullName coreResources =
     [''pods'', ''services'', ''configmaps'', ''secrets'', ''deployments.apps'']"
  "map Name coreResources = [''pods'', ''services'', ''configmaps'', ''secrets'', ''deployments'']"
  "map APIGroup coreResources = [[], [], [], [], ''apps'']"
  "map Namespaced coreResources = [True, True, True, True, True]"
  by (simp_all add: coreResources_def)

subsection \<open>The example cluster, evaluated\<close>

lemma exampleClient_simps:
  "discoveryClient exampleClient = Some exampleDiscovery"
  "dynamicClient exampleClient = Some exampleDynamic"
  "resourcesCache exampleClient = []"
  "cacheTTL exampleClient = 5 * Minute"
  "namespaceCaches exampleClient = Map.empty"
  "namespaceCacheTimes exampleClient = Map.empty"
  by (simp_all add: exampleClient_def)

lemma exampleWorld_simps:
  "calls exampleWorld = []" "now exampleWorld = 1000 * Second" "DEBUG exampleWorld = []"
  "logs exampleWorld = []"
  by (simp_all add: exampleWorld_def)

lemma collect_exampleLists:
  "collectResources exampleLists [] =
    [\<lparr>Name = ''pods'', FullName = ''pods'', DisplayName = ''pods'', Kind = ''Pod'',
      ShortName = ''po'', APIGroup = [], APIVersion = ''v1'', Namespaced = True, Count = 0\<rparr>,
     \<lparr>Name = ''bindings'', FullName = ''bindings'', DisplayName = ''bindings'',
      Kind = ''Binding'', ShortName = [], APIGroup = [], APIVersion = ''v1'',
      Namespaced = True, Count = 0\<rparr>,
     \<lparr>Name = ''configmaps'', FullName = ''configmaps'', DisplayName = ''configmaps'',
      Kind = ''ConfigMap'', ShortName = ''cm'', APIGroup = [], APIVersion = ''v1'',
      Namespaced = True, Count = 0\<rparr>,
     \<lparr>Name = ''secrets'', FullName = ''secrets'', DisplayName = ''secrets'', Kind = ''Secret'',
      ShortName = [], APIGroup = [], APIVersion = ''v1'', Namespaced = True, Count = 0\<rparr>,
     \<lparr>Name = ''deployments'', FullName = ''deployments.apps'',
      DisplayName = ''deployments (apps)'', Kind = ''Deployment'', ShortName = ''deploy'',
      APIGroup = ''apps'', APIVersion = ''v1'', Namespaced = True, Count = 0\<rparr>]"
  by (simp add: exampleLists_def apiResource_def ParseGroupVersion_def toResourceInfo_def Let_def)

lemma fst_GetAPIResources_example:
  "fst (GetAPIResources exampleClient exampleWorld) = Inr (collectResources exampleLists [])"
  using GetAPIResources_success [of exampleClient exampleDiscovery exampleWorld exampleLists]
  by (simp add: exampleClient_simps not_cacheValid_empty exampleDiscovery_def)

lemma failingClient_facts:
  "discoveryClient failingClient = Some failingDiscovery"
  "\<not> cacheValid failingClient exampleWorld"
  "failingDiscovery (calls exampleWorld) = ([], Some (ErrGroupDiscoveryFailed failedGroups))"
  by (simp_all add: failingClient_def exampleClient_def cacheValid_def len_def
        failingDiscovery_def)

lemma partialClient_facts:
  "discoveryClient partialClient = Some partialDiscovery"
  "\<not> cacheValid partialClient exampleWorld"
  "partialDiscovery (calls exampleWorld) =
     (exampleLists, Some (ErrGroupDiscoveryFailed failedGroups))"
  "exampleLists \<noteq> []"
  by (simp_all add: partialClient_def exampleClient_def cacheValid_def len_def
        partialDiscovery_def exampleLists_def)

lemma warmClient_facts:
  "discoveryClient warmClient = Some exampleDiscovery"
  "cacheValid warmClient exampleWorld"
  "resourcesCache warmClient = collectResources exampleLists []"
  "namespaceCaches warmClient ''default'' = Some exampleCounted"
  "namespaceCacheTimes warmClient ''default'' = Some (900 * Second)"
  "Since exampleWorld (900 * Second) < cacheTTL warmClient"
  by (simp_all add: warmClient_def exampleClient_def cacheValid_def len_def Since_def
        exampleWorld_def Second_def Minute_def collect_exampleLists)

section \<open>Lemmas on counting and the namespace cache\<close>

lemma remote_logPrintf: "remote call (logPrintf f as w) = logPrintf f as (remote call w)"
  by (simp add: remote_def logPrintf_def)

lemma countResourceObjects_logPrintf:
  "countResourceObjects c ns r (logPrintf f as w) =
     (fst (countResourceObjects c ns r w), logPrintf f as (snd (countResourceObjects c ns r w)))"
  by (simp add: countResourceObjects_def Let_def remote_logPrintf calls_remote
           split: option.splits sum.splits)

lemma logs_countResourceObjects: "logs (snd (countResourceObjects c ns r w)) = logs w"
  by (simp add: countResourceObjects_def Let_def split: option.splits sum.splits)

lemma count_nonneg: "0 \<le> fst (fst (countResourceObjects c ns r w))"
  by (simp add: countResourceObjects_def Let_def len_def split: option.splits sum.splits)

lemma isWarning_formats [simp]:
  "\<not> isWarning (Printf ''[DEBUG] Counting objects for: %s (%s/%s)'' as)"
  "\<not> isWarning (Printf ''[DEBUG]   -> Permission denied (expected)'' as)"
  "\<not> isWarning (Printf ''[DEBUG]   -> %d objects found'' as)"
  "\<not> isWarning (Printf ''Processed %d/%d resources'' as)"
  "isWarning (Printf ''Warning: Failed to count objects for resource %s: %v'' as)"
  by simp_all

lemma warnings_logPrintf:
  "filter isWarning (logs (logPrintf f as w)) =
     filter isWarning (logs w) @ (if isWarning (Printf f as) then [Printf f as] else [])"
  by (simp add: logPrintf_def)

text \<open>One round of the loop, by the outcome of the count.\<close>

lemma countStep_permission:
  assumes "snd (fst (countResourceObjects c ns resource w)) = Some e"
    and "isPermissionError (Error e)"
  shows "Count (fst (countStep c ns dbg n p resource w)) = 0"
    and "filter isWarning (logs (snd (countStep c ns dbg n p resource w))) =
         filter isWarning (logs w)"
  using assms
  by (simp_all add: countStep_def Let_def split_beta countResourceObjects_logPrintf
        warnings_logPrintf logs_countResourceObjects)

lemma countStep_other_error:
  assumes "snd (fst (countResourceObjects c ns resource w)) = Some e"
    and "\<not> isPermissionError (Error e)"
  shows "Count (fst (countStep c ns dbg n p resource w)) = 0"
    and "filter isWarning (logs (snd (countStep c ns dbg n p resource w))) =
         filter isWarning (logs w) @
           [Printf ''Warning: Failed to count objects for resource %s: %v''
              [S (Name resource), S (Error e)]]"
  using assms
  by (simp_all add: countStep_def Let_def split_beta countResourceObjects_logPrintf
        warnings_logPrintf logs_countResourceObjects)

lemma countStep_shape:
  "(fst (countStep c ns dbg n p resource w))\<lparr>Count := 0\<rparr> = resource\<lparr>Count := 0\<rparr>"
  by (simp add: countStep_def Let_def split_beta split: option.splits)

lemma countLoop_shape:
  "map (\<lambda>r. r\<lparr>Count := 0\<rparr>) (fst (countLoop c ns dbg n p resources w)) =
   map (\<lambda>r. r\<lparr>Count := 0\<rparr>) resources"
  by (induction resources arbitrary: p w) (simp_all add: split_beta Let_def countStep_shape)

lemma scanNamespace_complete:
  assumes "fst (GetAPIResources c w) = Inr catalog"
  shows "\<exists>counted. fst (scanNamespace c ns w) = Inr counted \<and>
           map (\<lambda>r. r\<lparr>Count := 0\<rparr>) counted =
           map (\<lambda>r. r\<lparr>Count := 0\<rparr>) (filterNamespaced catalog [])"
  using assms
  by (cases "GetAPIResources c w")
     (simp add: scanNamespace_def Let_def split_beta countLoop_shape)

lemma scanNamespace_stores:
  assumes "scanNamespace c ns w = (Inr rs, c1, w1)"
  shows "namespaceCaches c1 ns = Some rs" and "namespaceCacheTimes c1 ns = Some (now w1)"
    and "cacheTTL c1 = cacheTTL (fst (snd (GetAPIResources c w)))"
  using assms
  by (cases "GetAPIResources c w"; cases "fst (GetAPIResources c w)";
      auto simp: scanNamespace_def Let_def split_beta)+

lemma GetResourcesInNamespace_hit:
  assumes "namespaceCaches c ns = Some cached" and "namespaceCacheTimes c ns = Some t"
    and "Since w t < cacheTTL c"
  shows "GetResourcesInNamespace c ns w =
     (Inr cached, c,
      logPrintf ''[DEBUG] Using cached namespace data for '%s' (%d resources, cached %v ago)''
        [S ns, I (len cached), D (RoundSecond (Since w t))] w)"
  using assms by (simp add: GetResourcesInNamespace_def)

lemma GetResourcesInNamespace_stores:
  assumes "GetResourcesInNamespace c ns w = (Inr rs, c1, w1)"
  shows "namespaceCaches c1 ns = Some rs"
  using assms
  by (auto simp: GetResourcesInNamespace_def scanNamespace_stores(1)
           split: option.splits if_splits)

subsection \<open>A scan of the example cluster, evaluated\<close>

lemma isPermissionError_examples:
  "isPermissionError ''the server does not allow this method on the requested resource''"
  "isPermissionError ''secrets is forbidden: User cannot list resource secrets in the namespace''"
  "\<not> isPermissionError ''context deadline exceeded''"
  by (simp_all add: isPermissionError_def)

lemma filterNamespaced_example:
  "filterNamespaced (collectResources exampleLists []) [] = map (\<lambda>r. r\<lparr>Count := 0\<rparr>) exampleCounted"
  by (simp add: collect_exampleLists exampleCounted_def skipResources_def)

lemma GetAPIResources_example:
  "GetAPIResources exampleClient (logPrintf f as exampleWorld) =
    (Inr (collectResources exampleLists []),
     exampleClient\<lparr>resourcesCache := collectResources exampleLists [],
        resourcesCacheTime := 1000001000000\<rparr>,
     logPrintf ''[DEBUG] API resource discovery completed in %v, cached %d resources''
       [D 1000000, I 5]
       (remote DiscoveryCall
         (logPrintf ''[DEBUG] Cache miss or expired, discovering API resources...'' []
           (logPrintf f as exampleWorld))))"
  by (simp add: GetAPIResources_miss [of exampleClient exampleDiscovery] exampleClient_simps
      not_cacheValid_empty exampleDiscovery_def discovered_def Let_def remote_def logPrintf_def
      exampleWorld_def Second_def len_def collect_exampleLists)

lemma countResourceObjects_example:
  assumes "dynamicClient c = Some exampleDynamic"
  shows "Name r = ''pods'' \<Longrightarrow> countResourceObjects c ns r w =
           ((2, None), remote (ListCall (gvrOf r) ns limitedOptions) w)"
    and "Name r = ''bindings'' \<Longrightarrow> countResourceObjects c ns r w =
           ((0, Some (StatusError 405
                        ''the server does not allow this method on the requested resource'')),
            remote (ListCall (gvrOf r) ns limitedOptions) w)"
    and "Name r = ''configmaps'' \<Longrightarrow> countResourceObjects c ns r w =
           ((0, Some (OtherError ''context deadline exceeded'')),
            remote (ListCall (gvrOf r) ns limitedOptions) w)"
    and "Name r = ''secrets'' \<Longrightarrow> countResourceObjects c ns r w =
           ((0, Some (StatusError 403
                        ''secrets is forbidden: User cannot list resource secrets in the namespace'')),
            remote (ListCall (gvrOf r) ns limitedOptions) w)"
    and "Name r = ''deployments'' \<Longrightarrow> countResourceObjects c ns r w =
           ((3, None),
            remote (ListCall (gvrOf r) ns unboundedOptions)
              (remote (ListCall (gvrOf r) ns limitedOptions) w))"
  using assms
  by (simp_all add: countResourceObjects_def exampleDynamic_def gvrOf_def Let_def len_def
        exampleItems_def limitedOptions_def unboundedOptions_def)

lemma countStep_example:
  assumes "dynamicClient c = Some exampleDynamic" and "p mod 20 \<noteq> 0"
  shows "Name r = ''pods'' \<Longrightarrow> countStep c ns False n p r w =
           (r\<lparr>Count := 2\<rparr>, remote (ListCall (gvrOf r) ns limitedOptions) w)"
    and "Name r = ''configmaps'' \<Longrightarrow> countStep c ns False n p r w =
           (r\<lparr>Count := 0\<rparr>,
            logPrintf ''Warning: Failed to count objects for resource %s: %v''
              [S (Name r), S ''context deadline exceeded'']
              (remote (ListCall (gvrOf r) ns limitedOptions) w))"
    and "Name r = ''secrets'' \<Longrightarrow> countStep c ns False n p r w =
           (r\<lparr>Count := 0\<rparr>, remote (ListCall (gvrOf r) ns limitedOptions) w)"
    and "Name r = ''deployments'' \<Longrightarrow> countStep c ns False n p r w =
           (r\<lparr>Count := 3\<rparr>,
            remote (ListCall (gvrOf r) ns unboundedOptions)
              (remote (ListCall (gvrOf r) ns limitedOptions) w))"
  using assms(2)
  by (simp_all add: countStep_def countResourceObjects_example [OF assms(1)]
        isPermissionError_examples)

lemma countLoop_example:
  assumes "dynamicClient c = Some exampleDynamic"
  shows "fst (countLoop c ns False n 0 (map (\<lambda>r. r\<lparr>Count := 0\<rparr>) exampleCounted) w) =
           exampleCounted"
    and "calls (snd (countLoop c ns False n 0 (map (\<lambda>r. r\<lparr>Count := 0\<rparr>) exampleCounted) w)) =
           calls w @
           [ListCall \<lparr>Group = [], Version = ''v1'', Resource = ''pods''\<rparr> ns limitedOptions,
            ListCall \<lparr>Group = [], Version = ''v1'', Resource = ''configmaps''\<rparr> ns limitedOptions,
            ListCall \<lparr>Group = [], Version = ''v1'', Resource = ''secrets''\<rparr> ns limitedOptions,
            ListCall \<lparr>Group = ''apps'', Version = ''v1'', Resource = ''deployments''\<rparr> ns
              limitedOptions,
            ListCall \<lparr>Group = ''apps'', Version = ''v1'', Resource = ''deployments''\<rparr> ns
              unboundedOptions]"
    and "filter isWarning
           (logs (snd (countLoop c ns False n 0 (map (\<lambda>r. r\<lparr>Count := 0\<rparr>) exampleCounted) w))) =
         filter isWarning (logs w) @
           [Printf ''Warning: Failed to count objects for resource %s: %v''
              [S ''configmaps'', S ''context deadline exceeded'']]"
    and "latency w = (\<lambda>history. 1000000) \<Longrightarrow>
         now (snd (countLoop c ns False n 0 (map (\<lambda>r. r\<lparr>Count := 0\<rparr>) exampleCounted) w)) =
           now w + 5000000"
  by (simp_all add: exampleCounted_def countStep_example [OF assms] gvrOf_def calls_remote
        warnings_logPrintf remote_def)

lemma example_scan:
  "fst (GetResourcesInNamespace exampleClient ''default'' exampleWorld) = Inr exampleCounted"
  "fst (snd (GetResourcesInNamespace exampleClient ''default'' exampleWorld)) =
     exampleClient\<lparr>resourcesCache := collectResources exampleLists [],
       resourcesCacheTime := 1000001000000,
       namespaceCaches := [''default'' \<mapsto> exampleCounted],
       namespaceCacheTimes := [''default'' \<mapsto> 1000006000000]\<rparr>"
  "calls (snd (snd (GetResourcesInNamespace exampleClient ''default'' exampleWorld))) =
     [DiscoveryCall,
      ListCall \<lparr>Group = [], Version = ''v1'', Resource = ''pods''\<rparr> ''default'' limitedOptions,
      ListCall \<lparr>Group = [], Version = ''v1'', Resource = ''configmaps''\<rparr> ''default''
        limitedOptions,
      ListCall \<lparr>Group = [], Version = ''v1'', Resource = ''secrets''\<rparr> ''default'' limitedOptions,
      ListCall \<lparr>Group = ''apps'', Version = ''v1'', Resource = ''deployments''\<rparr> ''default''
        limitedOptions,
      ListCall \<lparr>Group = ''apps'', Version = ''v1'', Resource = ''deployments''\<rparr> ''default''
        unboundedOptions]"
  "filter isWarning
      (logs (snd (snd (GetResourcesInNamespace exampleClient ''default'' exampleWorld))))
     = [Printf ''Warning: Failed to count objects for resource %s: %v''
          [S ''configmaps'', S ''context deadline exceeded'']]"
proof -
  have a: "GetResourcesInNamespace exampleClient ''default'' exampleWorld =
      scanNamespace exampleClient ''default''
        (logPrintf ''[DEBUG] No cache found for namespace '%s', counting objects...''
           [S ''default''] exampleWorld)"
    by (simp add: GetResourcesInNamespace_def exampleClient_simps)
  have d: "dynamicClient (exampleClient\<lparr>resourcesCache := collectResources exampleLists [],
        resourcesCacheTime := 1000001000000\<rparr>) = Some exampleDynamic"
    by (simp add: exampleClient_simps)
  note defs = filterNamespaced_example countLoop_example [OF d] split_beta Let_def
    exampleWorld_simps calls_remote warnings_logPrintf
  show "fst (GetResourcesInNamespace exampleClient ''default'' exampleWorld) = Inr exampleCounted"
    unfolding a scanNamespace_def GetAPIResources_example by (simp add: defs)
  show "fst (snd (GetResourcesInNamespace exampleClient ''default'' exampleWorld)) =
     exampleClient\<lparr>resourcesCache := collectResources exampleLists [],
       resourcesCacheTime := 1000001000000,
       namespaceCaches := [''default'' \<mapsto> exampleCounted],
       namespaceCacheTimes := [''default'' \<mapsto> 1000006000000]\<rparr>"
    unfolding a scanNamespace_def GetAPIResources_example
    by (simp add: defs exampleClient_simps remote_def exampleWorld_def Second_def)
  show "calls (snd (snd (GetResourcesInNamespace exampleClient ''default'' exampleWorld))) =
     [DiscoveryCall,
      ListCall \<lparr>Group = [], Version = ''v1'', Resource = ''pods''\<rparr> ''default'' limitedOptions,
      ListCall \<lparr>Group = [], Version = ''v1'', Resource = ''configmaps''\<rparr> ''default''
        limitedOptions,
      ListCall \<lparr>Group = [], Version = ''v1'', Resource = ''secrets''\<rparr> ''default'' limitedOptions,
      ListCall \<lparr>Group = ''apps'', Version = ''v1'', Resource = ''deployments''\<rparr> ''default''
        limitedOptions,
      ListCall \<lparr>Group = ''apps'', Version = ''v1'', Resource = ''deployments''\<rparr> ''default''
        unboundedOptions]"
    unfolding a scanNamespace_def GetAPIResources_example by (simp add: defs)
  show "filter isWarning
      (logs (snd (snd (GetResourcesInNamespace exampleClient ''default'' exampleWorld))))
     = [Printf ''Warning: Failed to count objects for resource %s: %v''
          [S ''configmaps'', S ''context deadline exceeded'']]"
    unfolding a scanNamespace_def GetAPIResources_example by (simp add: defs)
qed

subsection \<open>The callback path and the handlers on the example cluster\<close>

lemma calls_fmtPrintf [simp]: "calls (fmtPrintf f as w) = calls w"
  and now_fmtPrintf [simp]: "now (fmtPrintf f as w) = now w"
  and Since_fmtPrintf [simp]: "Since (fmtPrintf f as w) t = Since w t"
  by (simp_all add: fmtPrintf_def Since_def)

lemma exampleCountedAll_eq:
  "exampleCountedAll =
    [\<lparr>Name = ''pods'', FullName = ''pods'', DisplayName = ''pods'', Kind = ''Pod'',
      ShortName = ''po'', APIGroup = [], APIVersion = ''v1'', Namespaced = True, Count = 2\<rparr>,
     \<lparr>Name = ''bindings'', FullName = ''bindings'', DisplayName = ''bindings'',
      Kind = ''Binding'', ShortName = [], APIGroup = [], APIVersion = ''v1'',
      Namespaced = True, Count = 0\<rparr>,
     \<lparr>Name = ''configmaps'', FullName = ''configmaps'', DisplayName = ''configmaps'',
      Kind = ''ConfigMap'', ShortName = ''cm'', APIGroup = [], APIVersion = ''v1'',
      Namespaced = True, Count = 0\<rparr>,
     \<lparr>Name = ''secrets'', FullName = ''secrets'', DisplayName = ''secrets'', Kind = ''Secret'',
      ShortName = [], APIGroup = [], APIVersion = ''v1'', Namespaced = True, Count = 0\<rparr>,
     \<lparr>Name = ''deployments'', FullName = ''deployments.apps'',
      DisplayName = ''deployments (apps)'', Kind = ''Deployment'', ShortName = ''deploy'',
      APIGroup = ''apps'', APIVersion = ''v1'', Namespaced = True, Count = 3\<rparr>]"
  by (simp add: exampleCountedAll_def exampleCounted_def exampleResource_def collect_exampleLists)

lemma filterNamespacedOnly_example:
  "filterNamespacedOnly (collectResources exampleLists []) [] =
     map (\<lambda>r. r\<lparr>Count := 0\<rparr>) exampleCountedAll"
  by (simp add: collect_exampleLists exampleCountedAll_eq)

lemma countStepWithCallback_example:
  assumes "dynamicClient c = Some exampleDynamic" and "p mod 20 \<noteq> 0"
  shows "Name r = ''pods'' \<Longrightarrow> countStepWithCallback c ns None False n p r w =
           (r\<lparr>Count := 2\<rparr>, remote (ListCall (gvrOf r) ns limitedOptions) w)"
    and "Name r = ''bindings'' \<Longrightarrow> countStepWithCallback c ns None False n p r w =
           (r\<lparr>Count := 0\<rparr>, remote (ListCall (gvrOf r) ns limitedOptions) w)"
    and "Name r = ''configmaps'' \<Longrightarrow> countStepWithCallback c ns None False n p r w =
           (r\<lparr>Count := 0\<rparr>,
            logPrintf ''Warning: Failed to count objects for resource %s: %v''
              [S (Name r), S ''context deadline exceeded'']
              (remote (ListCall (gvrOf r) ns limitedOptions) w))"
    and "Name r = ''secrets'' \<Longrightarrow> countStepWithCallback c ns None False n p r w =
           (r\<lparr>Count := 0\<rparr>, remote (ListCall (gvrOf r) ns limitedOptions) w)"
    and "Name r = ''deployments'' \<Longrightarrow> countStepWithCallback c ns None False n p r w =
           (r\<lparr>Count := 3\<rparr>,
            remote (ListCall (gvrOf r) ns unboundedOptions)
              (remote (ListCall (gvrOf r) ns limitedOptions) w))"
  using assms(2)
  by (simp_all add: countStepWithCallback_def countResourceObjects_example [OF assms(1)]
        isPermissionError_examples)

lemma countLoopWithCallback_example:
  assumes "dynamicClient c = Some exampleDynamic"
  shows "fst (countLoopWithCallback c ns None False n 0
                (map (\<lambda>r. r\<lparr>Count := 0\<rparr>) exampleCountedAll) w) = exampleCountedAll"
    and "calls (snd (countLoopWithCallback c ns None False n 0
                (map (\<lambda>r. r\<lparr>Count := 0\<rparr>) exampleCountedAll) w)) =
           calls w @
           [ListCall \<lparr>Group = [], Version = ''v1'', Resource = ''pods''\<rparr> ns limitedOptions,
            ListCall \<lparr>Group = [], Version = ''v1'', Resource = ''bindings''\<rparr> ns limitedOptions,
            ListCall \<lparr>Group = [], Version = ''v1'', Resource = ''configmaps''\<rparr> ns limitedOptions,
            ListCall \<lparr>Group = [], Version = ''v1'', Resource = ''secrets''\<rparr> ns limitedOptions,
            ListCall \<lparr>Group = ''apps'', Version = ''v1'', Resource = ''deployments''\<rparr> ns
              limitedOptions,
            ListCall \<lparr>Group = ''apps'', Version = ''v1'', Resource = ''deployments''\<rparr> ns
              unboundedOptions]"
  by (simp_all add: exampleCountedAll_eq countStepWithCallback_example [OF assms] gvrOf_def
        calls_remote)

lemma example_scan_with_callback:
  "fst (GetResourcesInNamespaceWithCallback unicodeLower exampleClient ''default'' None exampleWorld) =
     Inr exampleCountedAll"
  "namespaceCaches
     (fst (snd (GetResourcesInNamespaceWithCallback unicodeLower exampleClient ''default'' None exampleWorld)))
     ''default'' = Some exampleCountedAll"
  "calls (snd (snd (GetResourcesInNamespaceWithCallback unicodeLower exampleClient ''default'' None
                      exampleWorld))) =
     [DiscoveryCall,
      ListCall \<lparr>Group = [], Version = ''v1'', Resource = ''pods''\<rparr> ''default'' limitedOptions,
      ListCall \<lparr>Group = [], Version = ''v1'', Resource = ''bindings''\<rparr> ''default''
        limitedOptions,
      ListCall \<lparr>Group = [], Version = ''v1'', Resource = ''configmaps''\<rparr> ''default''
        limitedOptions,
      ListCall \<lparr>Group = [], Version = ''v1'', Resource = ''secrets''\<rparr> ''default'' limitedOptions,
      ListCall \<lparr>Group = ''apps'', Version = ''v1'', Resource = ''deployments''\<rparr> ''default''
        limitedOptions,
      ListCall \<lparr>Group = ''apps'', Version = ''v1'', Resource = ''deployments''\<rparr> ''default''
        unboundedOptions]"
proof -
  have a: "GetResourcesInNamespaceWithCallback unicodeLower exampleClient ''default'' None exampleWorld =
      scanNamespaceWithCallback unicodeLower exampleClient ''default'' None exampleWorld"
    by (simp add: GetResourcesInNamespaceWithCallback_def exampleClient_simps)
  have d: "dynamicClient (exampleClient\<lparr>resourcesCache := collectResources exampleLists [],
        resourcesCacheTime := 1000001000000\<rparr>) = Some exampleDynamic"
    by (simp add: exampleClient_simps)
  have l: "ToLower unicodeLower [] \<noteq> ''true''"
    by (simp add: ToLower_def)
  note defs = filterNamespacedOnly_example countLoopWithCallback_example [OF d] split_beta Let_def
    exampleWorld_simps calls_remote callback_def l
  show "fst (GetResourcesInNamespaceWithCallback unicodeLower exampleClient ''default'' None exampleWorld) =
     Inr exampleCountedAll"
    unfolding a scanNamespaceWithCallback_def callback_def option.case Let_def
      GetAPIResources_example
    by (simp add: defs)
  show "namespaceCaches
     (fst (snd (GetResourcesInNamespaceWithCallback unicodeLower exampleClient ''default'' None exampleWorld)))
     ''default'' = Some exampleCountedAll"
    unfolding a scanNamespaceWithCallback_def callback_def option.case Let_def
      GetAPIResources_example
    by (simp add: defs)
  show "calls (snd (snd (GetResourcesInNamespaceWithCallback unicodeLower exampleClient ''default'' None
                      exampleWorld))) =
     [DiscoveryCall,
      ListCall \<lparr>Group = [], Version = ''v1'', Resource = ''pods''\<rparr> ''default'' limitedOptions,
      ListCall \<lparr>Group = [], Version = ''v1'', Resource = ''bindings''\<rparr> ''default''
        limitedOptions,
      ListCall \<lparr>Group = [], Version = ''v1'', Resource = ''configmaps''\<rparr> ''default''
        limitedOptions,
      ListCall \<lparr>Group = [], Version = ''v1'', Resource = ''secrets''\<rparr> ''default'' limitedOptions,
      ListCall \<lparr>Group = ''apps'', Version = ''v1'', Resource = ''deployments''\<rparr> ''default''
        limitedOptions,
      ListCall \<lparr>Group = ''apps'', Version = ''v1'', Resource = ''deployments''\<rparr> ''default''
        unboundedOptions]"
    unfolding a scanNamespaceWithCallback_def callback_def option.case Let_def
      GetAPIResources_example
    by (simp add: defs)
qed

lemma filterNamespaced_eq:
  "filterNamespaced resources acc =
     acc @ filter (\<lambda>r. Namespaced r \<and> \<not> skipResources (Name r)) resources"
  by (induction resources arbitrary: acc) simp_all

lemma warm_hit:
  assumes "now w = 1000 * Second"
  shows "GetResourcesInNamespace warmClient ''default'' w =
     (Inr exampleCounted, warmClient,
      logPrintf ''[DEBUG] Using cached namespace data for '%s' (%d resources, cached %v ago)''
        [S ''default'', I (len exampleCounted), D (RoundSecond (Since w (900 * Second)))] w)"
  using assms
  by (intro GetResourcesInNamespace_hit)
     (simp_all add: warmClient_def exampleClient_def Since_def Second_def Minute_def)

lemma warm_response:
  assumes "now w = 1000 * Second" and "Get (vars r) ''namespace'' = ''default''"
  shows "fst (getNamespaceResources unicodeLower warmServer r w) =
     (let (filtered, totalObjects) =
            filterLoop unicodeLower (ToLower unicodeLower (Get (query r) ''search''))
              (Get (query r) ''populated'' = ''true'') (Get (query r) ''apiGroup'')
              exampleCounted [] 0
      in \<lparr>StatusCode = 200, ContentType = ''application/json'',
           Body = ResourcesJSON
             \<lparr>resp_resources = filtered, resp_count = len filtered,
              resp_totalObjects = totalObjects, resp_namespace = ''default'',
              resp_debug = False\<rparr>\<rparr>)"
    and "fst (snd (getNamespaceResources unicodeLower warmServer r w)) = warmServer"
    and "calls (snd (snd (getNamespaceResources unicodeLower warmServer r w))) = calls w"
proof -
  have n: "now (fmtPrintf ''Loading resources for namespace: %s'' [S ''default''] w) =
      1000 * Second"
    using assms(1) by simp
  show "fst (getNamespaceResources unicodeLower warmServer r w) =
     (let (filtered, totalObjects) =
            filterLoop unicodeLower (ToLower unicodeLower (Get (query r) ''search''))
              (Get (query r) ''populated'' = ''true'') (Get (query r) ''apiGroup'')
              exampleCounted [] 0
      in \<lparr>StatusCode = 200, ContentType = ''application/json'',
           Body = ResourcesJSON
             \<lparr>resp_resources = filtered, resp_count = len filtered,
              resp_totalObjects = totalObjects, resp_namespace = ''default'',
              resp_debug = False\<rparr>\<rparr>)"
    by (simp add: getNamespaceResources_def warmServer_def warm_hit [OF n] assms(2) Let_def
          split_beta)
  show "fst (snd (getNamespaceResources unicodeLower warmServer r w)) = warmServer"
    by (simp add: getNamespaceResources_def warmServer_def warm_hit [OF n] assms(2) Let_def
          split_beta)
  show "calls (snd (snd (getNamespaceResources unicodeLower warmServer r w))) = calls w"
    by (simp add: getNamespaceResources_def warmServer_def warm_hit [OF n] assms(2) Let_def
          split_beta)
qed

lemma request_facts:
  "Get (vars exampleRequest) ''namespace'' = ''default''"
  "Get (vars appsRequest) ''namespace'' = ''default''"
  "Get (vars v1Request) ''namespace'' = ''default''"
  by (simp_all add: exampleRequest_def appsRequest_def v1Request_def Get_def)

lemma filterLoop_example:
  "filterLoop unicodeLower (ToLower unicodeLower (Get (query exampleRequest) ''search''))
     (Get (query exampleRequest) ''populated'' = ''true'') (Get (query exampleRequest) ''apiGroup'')
     exampleCounted [] 0 = (exampleCounted, 5)"
  "filterLoop unicodeLower (ToLower unicodeLower (Get (query appsRequest) ''search''))
     (Get (query appsRequest) ''populated'' = ''true'') (Get (query appsRequest) ''apiGroup'')
     exampleCounted [] 0 = ([], 5)"
  "filterLoop unicodeLower (ToLower unicodeLower (Get (query v1Request) ''search''))
     (Get (query v1Request) ''populated'' = ''true'') (Get (query v1Request) ''apiGroup'')
     exampleCounted [] 0 = (exampleCounted, 5)"
  by (simp_all add: exampleRequest_def appsRequest_def v1Request_def Get_def ToLower_def
        exampleCounted_def)

lemma len_exampleCounted: "len exampleCounted = 4" "len ([] :: ResourceInfo list) = 0"
  by (simp_all add: len_def exampleCounted_def)

text \<open>The scan of \<open>GetResourcesInNamespace\<close> returns namespaced resources outside the
  deny-list only.\<close>

lemma scanNamespace_skips_deny_listed:
  assumes "fst (scanNamespace c ns w) = Inr counted" and "r \<in> set counted"
  shows "Namespaced r \<and> \<not> skipResources (Name r)"
proof -
  obtain catalog where g: "fst (GetAPIResources c w) = Inr catalog"
    using assms(1)
    by (cases "GetAPIResources c w"; cases "fst (GetAPIResources c w)")
       (auto simp: scanNamespace_def)
  from scanNamespace_complete [OF g, of ns] assms(1)
  have m: "map (\<lambda>r. r\<lparr>Count := 0\<rparr>) counted =
           map (\<lambda>r. r\<lparr>Count := 0\<rparr>) (filterNamespaced catalog [])"
    by auto
  have "r\<lparr>Count := 0\<rparr> \<in> set (map (\<lambda>r. r\<lparr>Count := 0\<rparr>) counted)"
    using assms(2) by auto
  then obtain r' where r': "r' \<in> set (filterNamespaced catalog [])"
    and e: "r\<lparr>Count := 0\<rparr> = r'\<lparr>Count := 0\<rparr>"
    unfolding m by auto
  from e have "Name r = Name r'" and "Namespaced r = Namespaced r'"
    by (metis ResourceInfo.select_convs(1) ResourceInfo.surjective ResourceInfo.update_convs(9),
        metis ResourceInfo.select_convs(8) ResourceInfo.surjective ResourceInfo.update_convs(9))
  with r' show ?thesis
    by (simp add: filterNamespaced_eq)
qed

subsection \<open>The counting loop, round by round\<close>

lemma countStep_spec:
  "fst (countStep c ns dbg n p resource w) =
     resource\<lparr>Count := specCount (fst (countResourceObjects c ns resource w))\<rparr>"
  "filter isWarning (logs (snd (countStep c ns dbg n p resource w))) =
     filter isWarning (logs w) @ specWarnings resource (fst (countResourceObjects c ns resource w))"
  by (simp_all add: countStep_def Let_def split_beta countResourceObjects_logPrintf
        warnings_logPrintf logs_countResourceObjects specCount_def specWarnings_def
        isPermissionError_def split: option.splits)

lemma countLoop_append:
  "countLoop c ns dbg n p (xs @ ys) w =
     (fst (countLoop c ns dbg n p xs w)
        @ fst (countLoop c ns dbg n (p + len xs) ys (snd (countLoop c ns dbg n p xs w))),
      snd (countLoop c ns dbg n (p + len xs) ys (snd (countLoop c ns dbg n p xs w))))"
proof (induction xs arbitrary: p w)
  case Nil
  show ?case by (simp add: len_def)
next
  case (Cons x xs)
  have "p + 1 + len xs = p + len (x # xs)"
    by (simp add: len_def)
  with Cons [of "p + 1"] show ?case
    by (simp add: split_beta Let_def)
qed

lemma countLoop_length: "length (fst (countLoop c ns dbg n p resources w)) = length resources"
  by (induction resources arbitrary: p w) (simp_all add: split_beta Let_def)

lemma countLoop_take_Suc:
  assumes "i < length resources"
  shows "countLoop c ns dbg n p (take (Suc i) resources) w =
     (fst (countLoop c ns dbg n p (take i resources) w)
        @ [fst (countStep c ns dbg n (p + int i + 1) (resources ! i)
                  (snd (countLoop c ns dbg n p (take i resources) w)))],
      snd (countStep c ns dbg n (p + int i + 1) (resources ! i)
             (snd (countLoop c ns dbg n p (take i resources) w))))"
proof -
  have "take (Suc i) resources = take i resources @ [resources ! i]"
    using assms by (simp add: take_Suc_conv_app_nth)
  moreover have "len (take i resources) = int i"
    using assms by (simp add: len_def)
  ultimately show ?thesis
    by (simp add: countLoop_append split_beta Let_def)
qed

lemma countLoop_nth:
  assumes "i < length resources"
  shows "fst (countLoop c ns dbg n p resources w) ! i =
     fst (countStep c ns dbg n (p + int i + 1) (resources ! i)
            (snd (countLoop c ns dbg n p (take i resources) w)))"
proof -
  have "resources = take (Suc i) resources @ drop (Suc i) resources"
    by simp
  then have "fst (countLoop c ns dbg n p resources w) =
      fst (countLoop c ns dbg n p (take (Suc i) resources) w)
        @ fst (countLoop c ns dbg n (p + len (take (Suc i) resources)) (drop (Suc i) resources)
                 (snd (countLoop c ns dbg n p (take (Suc i) resources) w)))"
    by (metis countLoop_append fst_conv)
  moreover have "length (fst (countLoop c ns dbg n p (take i resources) w)) = i"
    using assms by (simp add: countLoop_length)
  ultimately show ?thesis
    by (simp add: countLoop_take_Suc [OF assms] nth_append)
qed

lemma countLoop_spec:
  "fst (countLoop c ns dbg n p resources w) =
     map (\<lambda>i. (resources ! i)
                \<lparr>Count := specCount (fst (countResourceObjects c ns (resources ! i)
                                            (snd (countLoop c ns dbg n p (take i resources) w))))\<rparr>)
       [0..<length resources]"
  by (rule nth_equalityI) (simp_all add: countLoop_length countLoop_nth countStep_spec)

lemma countLoop_warnings:
  "filter isWarning (logs (snd (countLoop c ns dbg n p resources w))) =
     filter isWarning (logs w) @
     concat (map (\<lambda>i. specWarnings (resources ! i)
                         (fst (countResourceObjects c ns (resources ! i)
                                 (snd (countLoop c ns dbg n p (take i resources) w)))))
               [0..<length resources])"
proof (induction resources rule: rev_induct)
  case Nil
  show ?case by simp
next
  case (snoc x xs)
  let ?F = "\<lambda>rs i. specWarnings (rs ! i)
                      (fst (countResourceObjects c ns (rs ! i)
                              (snd (countLoop c ns dbg n p (take i rs) w))))"
  have step: "countLoop c ns dbg n p (xs @ [x]) w =
      (fst (countLoop c ns dbg n p xs w)
        @ [fst (countStep c ns dbg n (p + int (length xs) + 1) x (snd (countLoop c ns dbg n p xs w)))],
       snd (countStep c ns dbg n (p + int (length xs) + 1) x (snd (countLoop c ns dbg n p xs w))))"
    using countLoop_take_Suc [of "length xs" "xs @ [x]" c ns dbg n p w] by simp
  have m: "map (?F (xs @ [x])) [0..<length xs] = map (?F xs) [0..<length xs]"
    by (rule map_cong) (simp_all add: nth_append)
  have l: "?F (xs @ [x]) (length xs) =
      specWarnings x (fst (countResourceObjects c ns x (snd (countLoop c ns dbg n p xs w))))"
    by simp
  have u: "[0..<length (xs @ [x])] = [0..<length xs] @ [length xs]"
    by simp
  have "filter isWarning (logs (snd (countLoop c ns dbg n p (xs @ [x]) w))) =
      filter isWarning (logs (snd (countLoop c ns dbg n p xs w)))
        @ specWarnings x (fst (countResourceObjects c ns x (snd (countLoop c ns dbg n p xs w))))"
    unfolding step by (simp add: countStep_spec)
  also have "\<dots> = (filter isWarning (logs w) @ concat (map (?F xs) [0..<length xs]))
        @ ?F (xs @ [x]) (length xs)"
    unfolding snoc.IH l ..
  also have "\<dots> = filter isWarning (logs w) @ concat (map (?F (xs @ [x])) [0..<length (xs @ [x])])"
    by (simp only: u map_append concat_append m list.map concat.simps append_Nil2 append_assoc)
  finally show ?case .
qed

lemma scanNamespace_loop:
  assumes "GetAPIResources c w = (Inr catalog, c1, w1)"
  shows "scanNamespace c ns w =
     (let rs = filterNamespaced catalog [];
          lp = countLoop c1 ns (DEBUG w1 = ''true'' \<or> DEBUG w1 = ''1'') (len rs) 0 rs
                 (logPrintf
                    (''Counting objects for %d namespaced resources in namespace '%s'' @ [CHR 0x27])
                    [I (len rs), S ns] w1);
          w4 = logPrintf (''Completed: Found %d namespaced resources in '%s'' @ [CHR 0x27])
                 [I (len (fst lp)), S ns] (snd lp)
      in (Inr (fst lp),
          c1\<lparr>namespaceCaches := (namespaceCaches c1)(ns \<mapsto> fst lp),
             namespaceCacheTimes := (namespaceCacheTimes c1)(ns \<mapsto> now w4)\<rparr>,
          logPrintf (''[DEBUG] Cached %d resources for namespace '%s'' @ [CHR 0x27])
            [I (len (fst lp)), S ns] w4))"
  by (simp add: scanNamespace_def assms Let_def split_beta)

lemma isWarning_scan_formats [simp]:
  "\<not> isWarning (Printf (''Completed: Found %d namespaced resources in '%s'' @ [CHR 0x27]) as)"
  "\<not> isWarning (Printf (''[DEBUG] Cached %d resources for namespace '%s'' @ [CHR 0x27]) as)"
  "\<not> isWarning
       (Printf (''Counting objects for %d namespaced resources in namespace '%s'' @ [CHR 0x27]) as)"
  by simp_all

lemma Contains_append: "Contains (xs @ ys @ zs) ys"
proof (induction xs)
  case Nil
  have "prefix ys (ys @ zs)" by simp
  then show ?case by (cases "ys @ zs") auto
next
  case (Cons x xs)
  then show ?case by simp
qed

subsection \<open>Scans of the clusters that answer with errors only\<close>

lemma GetResourcesInNamespace_miss:
  assumes "namespaceCaches c ns = None"
  shows "GetResourcesInNamespace c ns w =
     scanNamespace c ns
       (logPrintf ''[DEBUG] No cache found for namespace '%s', counting objects...'' [S ns] w)"
  using assms by (simp add: GetResourcesInNamespace_def)

lemma GetAPIResources_fresh:
  assumes "discoveryClient c = Some exampleDiscovery" and "resourcesCache c = []"
  shows "GetAPIResources c w =
     (Inr (collectResources exampleLists []),
      c\<lparr>resourcesCache := collectResources exampleLists [],
        resourcesCacheTime := now (remote DiscoveryCall w)\<rparr>,
      logPrintf ''[DEBUG] API resource discovery completed in %v, cached %d resources''
        [D (now (remote DiscoveryCall w) - now w), I (len (collectResources exampleLists []))]
        (remote DiscoveryCall
           (logPrintf ''[DEBUG] Cache miss or expired, discovering API resources...'' [] w)))"
  by (simp add: GetAPIResources_miss [OF assms(1) not_cacheValid_empty [OF assms(2)]]
        exampleDiscovery_def Let_def discovered_def remote_logPrintf)

lemma scan_fresh:
  assumes "discoveryClient c = Some exampleDiscovery" and "resourcesCache c = []"
    and "namespaceCaches c ns = None" and "DEBUG w = []"
  shows "\<exists>c1 w2. dynamicClient c1 = dynamicClient c
           \<and> filter isWarning (logs w2) = filter isWarning (logs w)
           \<and> fst (GetResourcesInNamespace c ns w) =
               Inr (fst (countLoop c1 ns False 4 0 (map (\<lambda>r. r\<lparr>Count := 0\<rparr>) exampleCounted) w2))
           \<and> filter isWarning (logs (snd (snd (GetResourcesInNamespace c ns w)))) =
               filter isWarning
                 (logs (snd (countLoop c1 ns False 4 0
                               (map (\<lambda>r. r\<lparr>Count := 0\<rparr>) exampleCounted) w2)))"
proof -
  let ?w0 = "logPrintf ''[DEBUG] No cache found for namespace '%s', counting objects...''
               [S ns] w"
  let ?c1 = "c\<lparr>resourcesCache := collectResources exampleLists [],
                resourcesCacheTime := now (remote DiscoveryCall ?w0)\<rparr>"
  let ?w1 = "logPrintf ''[DEBUG] API resource discovery completed in %v, cached %d resources''
        [D (now (remote DiscoveryCall ?w0) - now ?w0), I (len (collectResources exampleLists []))]
        (remote DiscoveryCall
           (logPrintf ''[DEBUG] Cache miss or expired, discovering API resources...'' [] ?w0))"
  let ?w2 = "logPrintf
               (''Counting objects for %d namespaced resources in namespace '%s'' @ [CHR 0x27])
               [I 4, S ns] ?w1"
  have l: "len (map (\<lambda>r. r\<lparr>Count := 0\<rparr>) exampleCounted) = 4"
    by (simp add: len_def exampleCounted_def)
  have s: "GetResourcesInNamespace c ns w = scanNamespace c ns ?w0"
    using GetResourcesInNamespace_miss [OF assms(3)] .
  note loop = scanNamespace_loop [OF GetAPIResources_fresh [OF assms(1,2), of ?w0], of ns]
  have a: "fst (GetResourcesInNamespace c ns w) =
      Inr (fst (countLoop ?c1 ns False 4 0 (map (\<lambda>r. r\<lparr>Count := 0\<rparr>) exampleCounted) ?w2))"
    unfolding s loop by (simp add: Let_def filterNamespaced_example l assms(4))
  have b: "filter isWarning (logs (snd (snd (GetResourcesInNamespace c ns w)))) =
      filter isWarning
        (logs (snd (countLoop ?c1 ns False 4 0 (map (\<lambda>r. r\<lparr>Count := 0\<rparr>) exampleCounted) ?w2)))"
    unfolding s loop by (simp add: Let_def filterNamespaced_example l assms(4) warnings_logPrintf)
  have c: "filter isWarning (logs ?w2) = filter isWarning (logs w)"
    by (simp add: warnings_logPrintf)
  have "dynamicClient ?c1 = dynamicClient c"
    by simp
  with a b c show ?thesis
    by blast
qed

lemma refusedError_forbidden:
  "isPermissionError (Error (refusedError ''forbidden'' gvr))"
proof -
  have "Error (refusedError ''forbidden'' gvr) =
      (''Get '' @ [CHR 0x22] @ ''https://10.96.0.1:443''
        @ (if Group gvr = [] then ''/api/'' else ''/apis/'' @ Group gvr @ ''/'') @ Version gvr
        @ ''/namespaces/'')
      @ ''forbidden''
      @ (''/'' @ Resource gvr @ ''?timeoutSeconds=3''
        @ [CHR 0x22] @ '': dial tcp 10.96.0.1:443: connect: connection refused'')"
    by (simp add: refusedError_def)
  then show ?thesis
    unfolding isPermissionError_def using Contains_append by metis
qed

lemma countStep_refused:
  assumes "dynamicClient c = Some refusedDynamic" and "p mod 20 \<noteq> 0"
  shows "countStep c ''forbidden'' False n p r w =
     (r\<lparr>Count := 0\<rparr>, remote (ListCall (gvrOf r) ''forbidden'' limitedOptions) w)"
  using assms
  by (simp add: countStep_def countResourceObjects_def refusedDynamic_def Let_def
        refusedError_forbidden)

lemma countStep_denied:
  assumes "dynamicClient c = Some deniedDynamic" and "p mod 20 \<noteq> 0"
  shows "countStep c ns False n p r w =
     (r\<lparr>Count := 0\<rparr>,
      logPrintf ''Warning: Failed to count objects for resource %s: %v''
        [S (Name r), S ''Forbidden'']
        (remote (ListCall (gvrOf r) ns limitedOptions) w))"
  using assms
  by (simp add: countStep_def countResourceObjects_def deniedDynamic_def deniedError_def Let_def
        isPermissionError_def)

lemma countLoop_refused:
  assumes "dynamicClient c = Some refusedDynamic"
  shows "fst (countLoop c ''forbidden'' False n 0 (map (\<lambda>r. r\<lparr>Count := 0\<rparr>) exampleCounted) w) =
           map (\<lambda>r. r\<lparr>Count := 0\<rparr>) exampleCounted"
    and "filter isWarning
           (logs (snd (countLoop c ''forbidden'' False n 0
                         (map (\<lambda>r. r\<lparr>Count := 0\<rparr>) exampleCounted) w))) =
         filter isWarning (logs w)"
  by (simp_all add: exampleCounted_def countStep_refused [OF assms])

lemma countLoop_denied:
  assumes "dynamicClient c = Some deniedDynamic"
  shows "filter isWarning
           (logs (snd (countLoop c ns False n 0 (map (\<lambda>r. r\<lparr>Count := 0\<rparr>) exampleCounted) w))) =
         filter isWarning (logs w) @
           [Printf ''Warning: Failed to count objects for resource %s: %v''
              [S ''pods'', S ''Forbidden''],
            Printf ''Warning: Failed to count objects for resource %s: %v''
              [S ''configmaps'', S ''Forbidden''],
            Printf ''Warning: Failed to count objects for resource %s: %v''
              [S ''secrets'', S ''Forbidden''],
            Printf ''Warning: Failed to count objects for resource %s: %v''
              [S ''deployments'', S ''Forbidden'']]"
  by (simp add: exampleCounted_def countStep_denied [OF assms] warnings_logPrintf)

lemma refused_scan:
  "fst (GetResourcesInNamespace refusedClient ''forbidden'' exampleWorld) =
     Inr (map (\<lambda>r. r\<lparr>Count := 0\<rparr>) exampleCounted)"
  "filter isWarning
     (logs (snd (snd (GetResourcesInNamespace refusedClient ''forbidden'' exampleWorld)))) = []"
proof -
  obtain c1 w2 where d: "dynamicClient c1 = dynamicClient refusedClient"
    and w: "filter isWarning (logs w2) = filter isWarning (logs exampleWorld)"
    and a: "fst (GetResourcesInNamespace refusedClient ''forbidden'' exampleWorld) =
               Inr (fst (countLoop c1 ''forbidden'' False 4 0
                           (map (\<lambda>r. r\<lparr>Count := 0\<rparr>) exampleCounted) w2))"
    and b: "filter isWarning
              (logs (snd (snd (GetResourcesInNamespace refusedClient ''forbidden'' exampleWorld)))) =
            filter isWarning
              (logs (snd (countLoop c1 ''forbidden'' False 4 0
                            (map (\<lambda>r. r\<lparr>Count := 0\<rparr>) exampleCounted) w2)))"
    using scan_fresh [of refusedClient "''forbidden''" exampleWorld]
    by (auto simp: refusedClient_def exampleClient_def exampleWorld_def)
  have d': "dynamicClient c1 = Some refusedDynamic"
    using d by (simp add: refusedClient_def)
  show "fst (GetResourcesInNamespace refusedClient ''forbidden'' exampleWorld) =
     Inr (map (\<lambda>r. r\<lparr>Count := 0\<rparr>) exampleCounted)"
    unfolding a countLoop_refused(1) [OF d'] ..
  show "filter isWarning
     (logs (snd (snd (GetResourcesInNamespace refusedClient ''forbidden'' exampleWorld)))) = []"
    unfolding b countLoop_refused(2) [OF d'] w by (simp add: exampleWorld_simps)
qed

lemma denied_scan:
  "filter isWarning
     (logs (snd (snd (GetResourcesInNamespace deniedClient ''default'' exampleWorld)))) =
     [Printf ''Warning: Failed to count objects for resource %s: %v''
        [S ''pods'', S ''Forbidden''],
      Printf ''Warning: Failed to count objects for resource %s: %v''
        [S ''configmaps'', S ''Forbidden''],
      Printf ''Warning: Failed to count objects for resource %s: %v''
        [S ''secrets'', S ''Forbidden''],
      Printf ''Warning: Failed to count objects for resource %s: %v''
        [S ''deployments'', S ''Forbidden'']]"
proof -
  obtain c1 w2 where d: "dynamicClient c1 = dynamicClient deniedClient"
    and w: "filter isWarning (logs w2) = filter isWarning (logs exampleWorld)"
    and b: "filter isWarning
              (logs (snd (snd (GetResourcesInNamespace deniedClient ''default'' exampleWorld)))) =
            filter isWarning
              (logs (snd (countLoop c1 ''default'' False 4 0
                            (map (\<lambda>r. r\<lparr>Count := 0\<rparr>) exampleCounted) w2)))"
    using scan_fresh [of deniedClient "''default''" exampleWorld]
    by (auto simp: deniedClient_def exampleClient_def exampleWorld_def)
  have d': "dynamicClient c1 = Some deniedDynamic"
    using d by (simp add: deniedClient_def)
  show ?thesis
    unfolding b countLoop_denied [OF d'] w by (simp add: exampleWorld_simps)
qed

section \<open>The Resource Catalog against the specification\<close>



text \<open>
  C3. When the discovery answers with \<open>ErrGroupDiscoveryFailed\<close> and no resource list at
  all, \<open>GetAPIResources\<close> returns no error but the fixed fallback: five entries, pods,
  services, configmaps and secrets in the core group and deployments in \<open>apps\<close> (full name
  \<open>deployments.apps\<close>), all of them namespaced. The discovery is asked only when there
  is a discovery client and the catalog cache is empty or expired.
\<close>

theorem C3_all_groups_failed_fallback:
  assumes "discoveryClient c = Some dc" and "\<not> cacheValid c w"
    and "dc (calls w) = ([], Some (ErrGroupDiscoveryFailed groups))"
  shows "fst (GetAPIResources c w) = Inr coreResources
       \<and> length coreResources = 5
       \<and> map FullName coreResources =
            [''pods'', ''services'', ''configmaps'', ''secrets'', ''deployments.apps'']
       \<and> map Name coreResources =
            [''pods'', ''services'', ''configmaps'', ''secrets'', ''deployments'']
       \<and> map APIGroup coreResources = [[], [], [], [], ''apps'']
       \<and> map Namespaced coreResources = [True, True, True, True, True]"
  by (simp add: GetAPIResources_fallback [OF assms] coreResources_facts)

theorem C3_all_groups_failed_fallback_witness:
  "discoveryClient failingClient = Some failingDiscovery
   \<and> \<not> cacheValid failingClient exampleWorld
   \<and> failingDiscovery (calls exampleWorld) = ([], Some (ErrGroupDiscoveryFailed failedGroups))
   \<and> fst (GetAPIResources failingClient exampleWorld) = Inr coreResources"
  using C3_all_groups_failed_fallback [OF failingClient_facts] failingClient_facts by simp

text \<open>
  C10. On the fallback path the client is returned as it was: the cached resource list and
  its time stamp are not written, the fallback is not stored. So the cache is still empty
  or expired at any later moment of the clock, and the next call of \<open>GetAPIResources\<close>
  sends a discovery request again.
\<close>

theorem C10_fallback_not_cached:
  assumes "discoveryClient c = Some dc" and "\<not> cacheValid c w"
    and "dc (calls w) = ([], Some (ErrGroupDiscoveryFailed groups))"
    and "GetAPIResources c w = (result, c', w')"
    and "now w \<le> now w2"
  shows "result = Inr coreResources
       \<and> resourcesCache c' = resourcesCache c
       \<and> resourcesCacheTime c' = resourcesCacheTime c
       \<and> c' = c
       \<and> \<not> cacheValid c' w2
       \<and> calls (snd (snd (GetAPIResources c' w2))) = calls w2 @ [DiscoveryCall]"
proof -
  have eq: "c' = c" and res: "result = Inr coreResources"
    using assms(4) unfolding GetAPIResources_fallback [OF assms(1-3)] by simp_all
  have nv: "\<not> cacheValid c w2"
    using cacheValid_later [OF assms(2,5)] .
  show ?thesis
    using eq res nv GetAPIResources_miss_calls [OF assms(1) nv] by simp
qed

theorem C10_fallback_not_cached_witness:
  "discoveryClient failingClient = Some failingDiscovery
   \<and> \<not> cacheValid failingClient exampleWorld
   \<and> failingDiscovery (calls exampleWorld) = ([], Some (ErrGroupDiscoveryFailed failedGroups))
   \<and> now exampleWorld \<le> now (exampleWorld\<lparr>now := 2000 * Second\<rparr>)
   \<and> GetAPIResources failingClient exampleWorld =
       (Inr coreResources, failingClient, snd (snd (GetAPIResources failingClient exampleWorld)))
   \<and> calls (snd (snd (GetAPIResources failingClient (exampleWorld\<lparr>now := 2000 * Second\<rparr>))))
       = [DiscoveryCall]"
proof -
  obtain result c' w' where run: "GetAPIResources failingClient exampleWorld = (result, c', w')"
    by (cases "GetAPIResources failingClient exampleWorld") auto
  have le: "now exampleWorld \<le> now (exampleWorld\<lparr>now := 2000 * Second\<rparr>)"
    by (simp add: exampleWorld_def Second_def)
  from C10_fallback_not_cached [OF failingClient_facts run le]
  have r: "result = Inr coreResources" and e: "c' = failingClient"
    and cl: "calls (snd (snd (GetAPIResources c' (exampleWorld\<lparr>now := 2000 * Second\<rparr>)))) =
             calls (exampleWorld\<lparr>now := 2000 * Second\<rparr>) @ [DiscoveryCall]"
    by blast+
  have "GetAPIResources failingClient exampleWorld =
       (Inr coreResources, failingClient, snd (snd (GetAPIResources failingClient exampleWorld)))"
    using run r e by simp
  moreover have
    "calls (snd (snd (GetAPIResources failingClient (exampleWorld\<lparr>now := 2000 * Second\<rparr>))))
       = [DiscoveryCall]"
    using cl unfolding e by (simp add: exampleWorld_simps)
  ultimately show ?thesis
    using failingClient_facts le by blast
qed

text \<open>
  C6. When the discovery answers with \<open>ErrGroupDiscoveryFailed\<close> and at least one resource
  list, \<open>GetAPIResources\<close> returns no error: it returns what the two loops make of the lists
  that did come back, the same result as for a discovery that answered these lists without
  any error. Every resource of every such list is in the result (a subresource, whose name
  contains \<open>/\<close>, and a list whose group version does not parse are skipped on both paths),
  and nothing else is.
\<close>

theorem C6_partial_discovery_failure:
  assumes "discoveryClient c = Some dc" and "\<not> cacheValid c w"
    and "dc (calls w) = (resourceLists, Some (ErrGroupDiscoveryFailed groups))"
    and "resourceLists \<noteq> []"
    and "dc' (calls w) = (resourceLists, None)"
  shows "fst (GetAPIResources c w) = Inr (collectResources resourceLists [])
       \<and> fst (GetAPIResources c w) = fst (GetAPIResources (c\<lparr>discoveryClient := Some dc'\<rparr>) w)
       \<and> set (collectResources resourceLists []) =
           {toResourceInfo gv resource | gv resource resourceList.
              resourceList \<in> set resourceLists
              \<and> ParseGroupVersion (GroupVersion resourceList) = Inr gv
              \<and> resource \<in> set (APIResources resourceList)
              \<and> \<not> Contains (ar_Name resource) ''/''}"
proof -
  have a: "fst (GetAPIResources c w) = Inr (collectResources resourceLists [])"
    using GetAPIResources_partial [OF assms(1-4)] .
  have "\<not> cacheValid (c\<lparr>discoveryClient := Some dc'\<rparr>) w"
    using assms(2) by (simp add: cacheValid_def)
  then have b: "fst (GetAPIResources (c\<lparr>discoveryClient := Some dc'\<rparr>) w) =
      Inr (collectResources resourceLists [])"
    using GetAPIResources_success [of "c\<lparr>discoveryClient := Some dc'\<rparr>" dc' w resourceLists]
      assms(5) by simp
  have c: "set (collectResources resourceLists []) =
           {toResourceInfo gv resource | gv resource resourceList.
              resourceList \<in> set resourceLists
              \<and> ParseGroupVersion (GroupVersion resourceList) = Inr gv
              \<and> resource \<in> set (APIResources resourceList)
              \<and> \<not> Contains (ar_Name resource) ''/''}"
    by (simp add: collectResources_eq resourcesOfList_def split: sum.splits) force
  show ?thesis using a b c by simp
qed

theorem C6_partial_discovery_failure_witness:
  "discoveryClient partialClient = Some partialDiscovery
   \<and> \<not> cacheValid partialClient exampleWorld
   \<and> partialDiscovery (calls exampleWorld) =
       (exampleLists, Some (ErrGroupDiscoveryFailed failedGroups))
   \<and> exampleLists \<noteq> []
   \<and> exampleDiscovery (calls exampleWorld) = (exampleLists, None)
   \<and> length failedGroups = 2
   \<and> map FullName (case fst (GetAPIResources partialClient exampleWorld) of
                      Inl err \<Rightarrow> [] | Inr resources \<Rightarrow> resources) =
       [''pods'', ''bindings'', ''configmaps'', ''secrets'', ''deployments.apps'']"
proof -
  have h: "exampleDiscovery (calls exampleWorld) = (exampleLists, None)"
    by (simp add: exampleDiscovery_def)
  from C6_partial_discovery_failure
         [of partialClient partialDiscovery exampleWorld exampleLists failedGroups exampleDiscovery,
          OF partialClient_facts h]
  have "fst (GetAPIResources partialClient exampleWorld) = Inr (collectResources exampleLists [])"
    by blast
  then show ?thesis
    using partialClient_facts h by (simp add: collect_exampleLists failedGroups_def)
qed

section \<open>The Object Counter against the specification\<close>

text \<open>
  C7. \<open>countResourceObjects\<close> never returns a negative count. With a dynamic client it
  sends the list request with \<open>Limit: 0\<close> and \<open>TimeoutSeconds: 3\<close> first, in every case;
  it sends the follow-up request with the zero \<open>ListOptions\<close> exactly when the first answer
  is a list with a non-empty continuation token, and no other request. It returns the
  number of items of the follow-up list in that case and the number of items of the first
  list otherwise; an error of either request is returned with the count 0.
\<close>

theorem C7_count_one_page_then_full_list:
  "0 \<le> fst (fst (countResourceObjects c ns r w))
   \<and> (dynamicClient c = Some dyn \<longrightarrow>
        (let limited = ListCall (gvrOf r) ns limitedOptions;
             unbounded = ListCall (gvrOf r) ns unboundedOptions;
             first = dyn (calls w) (gvrOf r) ns limitedOptions;
             followUp = dyn (calls w @ [limited]) (gvrOf r) ns unboundedOptions;
             truncated = (case first of Inl e \<Rightarrow> False | Inr l \<Rightarrow> Continue l \<noteq> []);
             ((count, err), w') = countResourceObjects c ns r w
         in calls w' = calls w @ (if truncated then [limited, unbounded] else [limited])
            \<and> (case first of
                  Inl e \<Rightarrow> count = 0 \<and> err = Some e
                | Inr l \<Rightarrow>
                    if Continue l \<noteq> [] then
                      (case followUp of
                         Inl e \<Rightarrow> count = 0 \<and> err = Some e
                       | Inr fullList \<Rightarrow> count = len (Items fullList) \<and> err = None)
                    else count = len (Items l) \<and> err = None)))"
  by (simp add: count_nonneg)
     (simp add: countResourceObjects_def Let_def calls_remote split: sum.splits)

theorem C7_count_one_page_then_full_list_witness:
  "dynamicClient exampleClient = Some exampleDynamic
   \<and> exampleDynamic (calls exampleWorld) (gvrOf (exampleResource ''deployments'')) ''default''
         limitedOptions = Inr \<lparr>Items = exampleItems 1, Continue = ''page2''\<rparr>
   \<and> fst (countResourceObjects exampleClient ''default'' (exampleResource ''deployments'')
           exampleWorld) = (3, None)
   \<and> calls (snd (countResourceObjects exampleClient ''default'' (exampleResource ''deployments'')
           exampleWorld)) =
       [ListCall (gvrOf (exampleResource ''deployments'')) ''default'' limitedOptions,
        ListCall (gvrOf (exampleResource ''deployments'')) ''default'' unboundedOptions]"
proof -
  have d: "dynamicClient exampleClient = Some exampleDynamic"
    by (simp add: exampleClient_simps)
  have n: "Name (exampleResource ''deployments'') = ''deployments''"
    by (simp add: exampleResource_def collect_exampleLists)
  have a: "exampleDynamic h (gvrOf (exampleResource ''deployments'')) ''default'' limitedOptions
      = Inr \<lparr>Items = exampleItems 1, Continue = ''page2''\<rparr>" for h
    by (simp add: exampleDynamic_def gvrOf_def n limitedOptions_def)
  have b: "exampleDynamic h (gvrOf (exampleResource ''deployments'')) ''default'' unboundedOptions
      = Inr \<lparr>Items = exampleItems 3, Continue = []\<rparr>" for h
    by (simp add: exampleDynamic_def gvrOf_def n unboundedOptions_def)
  from C7_count_one_page_then_full_list
         [of exampleClient "''default''" "exampleResource ''deployments''" exampleWorld
             exampleDynamic]
  show ?thesis
    using d by (simp add: a b Let_def split_beta exampleWorld_simps len_def exampleItems_def
        prod_eq_iff)
qed

section \<open>The Namespace Cache against the specification\<close>

text \<open>
  C5. When the namespace has a cache entry whose age is less than the TTL,
  \<open>GetResourcesInNamespace\<close> returns the cached list as it is, leaves the client as it
  was and sends no request (neither a discovery nor a list request). Hence two calls in a
  row: whatever the first call did (a scan or a cache hit), if it returned a list, then a
  second call at a moment when the entry it left is younger than the TTL returns the same
  list, with no request sent.
\<close>

theorem C5_cache_hit_within_ttl:
  "(namespaceCaches c ns = Some cached \<and> namespaceCacheTimes c ns = Some t
      \<and> Since w t < cacheTTL c \<longrightarrow>
        fst (GetResourcesInNamespace c ns w) = Inr cached
      \<and> fst (snd (GetResourcesInNamespace c ns w)) = c
      \<and> calls (snd (snd (GetResourcesInNamespace c ns w))) = calls w)
   \<and> (GetResourcesInNamespace c ns w = (Inr rs, c1, w1)
      \<and> namespaceCacheTimes c1 ns = Some t1 \<and> Since w2 t1 < cacheTTL c1 \<longrightarrow>
        fst (GetResourcesInNamespace c1 ns w2) = Inr rs
      \<and> fst (snd (GetResourcesInNamespace c1 ns w2)) = c1
      \<and> calls (snd (snd (GetResourcesInNamespace c1 ns w2))) = calls w2)"
proof (intro conjI impI)
  assume h: "namespaceCaches c ns = Some cached \<and> namespaceCacheTimes c ns = Some t
      \<and> Since w t < cacheTTL c"
  then have hit: "GetResourcesInNamespace c ns w =
     (Inr cached, c,
      logPrintf ''[DEBUG] Using cached namespace data for '%s' (%d resources, cached %v ago)''
        [S ns, I (len cached), D (RoundSecond (Since w t))] w)"
    using GetResourcesInNamespace_hit by blast
  show "fst (GetResourcesInNamespace c ns w) = Inr cached"
    and "fst (snd (GetResourcesInNamespace c ns w)) = c"
    and "calls (snd (snd (GetResourcesInNamespace c ns w))) = calls w"
    unfolding hit by simp_all
next
  assume h: "GetResourcesInNamespace c ns w = (Inr rs, c1, w1)
      \<and> namespaceCacheTimes c1 ns = Some t1 \<and> Since w2 t1 < cacheTTL c1"
  then have "namespaceCaches c1 ns = Some rs"
    using GetResourcesInNamespace_stores by blast
  with h have hit: "GetResourcesInNamespace c1 ns w2 =
     (Inr rs, c1,
      logPrintf ''[DEBUG] Using cached namespace data for '%s' (%d resources, cached %v ago)''
        [S ns, I (len rs), D (RoundSecond (Since w2 t1))] w2)"
    using GetResourcesInNamespace_hit by blast
  show "fst (GetResourcesInNamespace c1 ns w2) = Inr rs"
    and "fst (snd (GetResourcesInNamespace c1 ns w2)) = c1"
    and "calls (snd (snd (GetResourcesInNamespace c1 ns w2))) = calls w2"
    unfolding hit by simp_all
qed

theorem C5_cache_hit_within_ttl_witness:
  "namespaceCaches warmClient ''default'' = Some exampleCounted
   \<and> namespaceCacheTimes warmClient ''default'' = Some (900 * Second)
   \<and> Since exampleWorld (900 * Second) < cacheTTL warmClient
   \<and> fst (GetResourcesInNamespace warmClient ''default'' exampleWorld) = Inr exampleCounted
   \<and> fst (snd (GetResourcesInNamespace warmClient ''default'' exampleWorld)) = warmClient
   \<and> calls (snd (snd (GetResourcesInNamespace warmClient ''default'' exampleWorld))) = []
   \<and> fst (GetResourcesInNamespace exampleClient ''default'' exampleWorld) = Inr exampleCounted
   \<and> namespaceCacheTimes
        (fst (snd (GetResourcesInNamespace exampleClient ''default'' exampleWorld))) ''default''
       = Some 1000006000000
   \<and> Since (exampleWorld\<lparr>now := 1100 * Second\<rparr>) 1000006000000
       < cacheTTL (fst (snd (GetResourcesInNamespace exampleClient ''default'' exampleWorld)))
   \<and> fst (GetResourcesInNamespace
            (fst (snd (GetResourcesInNamespace exampleClient ''default'' exampleWorld)))
            ''default'' (exampleWorld\<lparr>now := 1100 * Second\<rparr>)) = Inr exampleCounted
   \<and> calls (snd (snd (GetResourcesInNamespace
            (fst (snd (GetResourcesInNamespace exampleClient ''default'' exampleWorld)))
            ''default'' (exampleWorld\<lparr>now := 1100 * Second\<rparr>)))) = []"
proof -
  let ?c1 = "fst (snd (GetResourcesInNamespace exampleClient ''default'' exampleWorld))"
  let ?w1 = "snd (snd (GetResourcesInNamespace exampleClient ''default'' exampleWorld))"
  let ?w2 = "exampleWorld\<lparr>now := 1100 * Second\<rparr>"
  note warm = warmClient_facts(4,5,6)
  from C5_cache_hit_within_ttl
         [of warmClient "''default''" exampleCounted "900 * Second" exampleWorld]
  have A: "fst (GetResourcesInNamespace warmClient ''default'' exampleWorld) = Inr exampleCounted"
    "fst (snd (GetResourcesInNamespace warmClient ''default'' exampleWorld)) = warmClient"
    "calls (snd (snd (GetResourcesInNamespace warmClient ''default'' exampleWorld))) =
       calls exampleWorld"
    using warm by blast+
  have run: "GetResourcesInNamespace exampleClient ''default'' exampleWorld =
      (Inr exampleCounted, ?c1, ?w1)"
    using example_scan(1) by (simp add: prod_eq_iff)
  have t: "namespaceCacheTimes ?c1 ''default'' = Some 1000006000000"
    unfolding example_scan(2) by simp
  have age: "Since ?w2 1000006000000 < cacheTTL ?c1"
    unfolding example_scan(2)
    by (simp add: Since_def exampleClient_simps Second_def Minute_def)
  from C5_cache_hit_within_ttl
         [of exampleClient "''default''" _ _ exampleWorld exampleCounted ?c1 ?w1
             1000006000000 ?w2]
  have B: "fst (GetResourcesInNamespace ?c1 ''default'' ?w2) = Inr exampleCounted"
    "calls (snd (snd (GetResourcesInNamespace ?c1 ''default'' ?w2))) = calls ?w2"
    using run t age by blast+
  show ?thesis
    using warm A B example_scan(1) t age by (simp add: exampleWorld_simps)
qed

text \<open>
  C4, as the code has it. The code does not sort count errors by their kind but by their
  text: the error of a refused connection quotes the URL of the request, so in a namespace
  named \<open>forbidden\<close> its message contains \<open>forbidden\<close> and the scan logs no warning for
  this network error; a permission error (status 403) whose message is \<open>Forbidden\<close> contains
  neither phrase and is logged as a warning for every resource.
\<close>

theorem C4_error_kind_counterexample:
  "\<not> isForbidden (refusedError ''forbidden'' (gvrOf (exampleResource ''pods'')))
   \<and> \<not> isMethodNotAllowed (refusedError ''forbidden'' (gvrOf (exampleResource ''pods'')))
   \<and> fst (countResourceObjects refusedClient ''forbidden'' (exampleResource ''pods'') exampleWorld) =
       (0, Some (refusedError ''forbidden'' (gvrOf (exampleResource ''pods''))))
   \<and> fst (GetResourcesInNamespace refusedClient ''forbidden'' exampleWorld) =
       Inr (map (\<lambda>r. r\<lparr>Count := 0\<rparr>) exampleCounted)
   \<and> filter isWarning
       (logs (snd (snd (GetResourcesInNamespace refusedClient ''forbidden'' exampleWorld)))) = []
   \<and> isForbidden deniedError
   \<and> fst (countResourceObjects deniedClient ''default'' (exampleResource ''pods'') exampleWorld) =
       (0, Some deniedError)
   \<and> filter isWarning
       (logs (snd (snd (GetResourcesInNamespace deniedClient ''default'' exampleWorld)))) =
       [Printf ''Warning: Failed to count objects for resource %s: %v''
          [S ''pods'', S ''Forbidden''],
        Printf ''Warning: Failed to count objects for resource %s: %v''
          [S ''configmaps'', S ''Forbidden''],
        Printf ''Warning: Failed to count objects for resource %s: %v''
          [S ''secrets'', S ''Forbidden''],
        Printf ''Warning: Failed to count objects for resource %s: %v''
          [S ''deployments'', S ''Forbidden'']]"
  by (simp add: refused_scan denied_scan)
     (simp add: refusedError_def isForbidden_def isMethodNotAllowed_def deniedError_def
        countResourceObjects_def refusedClient_def deniedClient_def exampleClient_def
        refusedDynamic_def deniedDynamic_def Let_def)

text \<open>
  C4, amended. In one round of the counting loop of \<open>GetResourcesInNamespace\<close>: a count
  that fails with an error whose message contains \<open>does not allow this method\<close> or
  \<open>forbidden\<close> sets the count to 0 and adds no warning to the log; a count that fails with
  any other error sets the count to 0 and adds exactly one warning, naming the resource and
  the error; a count that succeeds stores the count and adds no warning. Every round of
  the loop is such a round, on the resource of its index and in the world the rounds
  before it left: no round stops the loop, the list it returns has every resource it was
  given, in order, each with the count its round resolved, and the warnings in its log are
  those of its rounds. The scan after a cache miss returns and stores the list of this loop
  on the filtered catalog, never an error once the catalog call has succeeded, and logs no
  warning of its own.
\<close>

theorem C4_count_failures_absorbed:
  "(snd (fst (countResourceObjects c ns resource w)) = Some e \<and> isPermissionError (Error e) \<longrightarrow>
        Count (fst (countStep c ns dbg n p resource w)) = 0
      \<and> filter isWarning (logs (snd (countStep c ns dbg n p resource w))) =
          filter isWarning (logs w))
   \<and> (snd (fst (countResourceObjects c ns resource w)) = Some e
        \<and> \<not> isPermissionError (Error e) \<longrightarrow>
        Count (fst (countStep c ns dbg n p resource w)) = 0
      \<and> filter isWarning (logs (snd (countStep c ns dbg n p resource w))) =
          filter isWarning (logs w) @
            [Printf ''Warning: Failed to count objects for resource %s: %v''
               [S (Name resource), S (Error e)]])
   \<and> (snd (fst (countResourceObjects c ns resource w)) = None \<longrightarrow>
        Count (fst (countStep c ns dbg n p resource w)) =
          fst (fst (countResourceObjects c ns resource w))
      \<and> filter isWarning (logs (snd (countStep c ns dbg n p resource w))) =
          filter isWarning (logs w))
   \<and> (i < length resources \<longrightarrow>
        fst (countLoop c ns dbg n p resources w) ! i =
          fst (countStep c ns dbg n (p + int i + 1) (resources ! i)
                 (snd (countLoop c ns dbg n p (take i resources) w)))
      \<and> snd (countLoop c ns dbg n p (take (Suc i) resources) w) =
          snd (countStep c ns dbg n (p + int i + 1) (resources ! i)
                 (snd (countLoop c ns dbg n p (take i resources) w))))
   \<and> length (fst (countLoop c ns dbg n p resources w)) = length resources
   \<and> fst (countLoop c ns dbg n p resources w) =
       map (\<lambda>i. (resources ! i)
                  \<lparr>Count := specCount (fst (countResourceObjects c ns (resources ! i)
                                              (snd (countLoop c ns dbg n p (take i resources) w))))\<rparr>)
         [0..<length resources]
   \<and> filter isWarning (logs (snd (countLoop c ns dbg n p resources w))) =
       filter isWarning (logs w) @
       concat (map (\<lambda>i. specWarnings (resources ! i)
                           (fst (countResourceObjects c ns (resources ! i)
                                   (snd (countLoop c ns dbg n p (take i resources) w)))))
                 [0..<length resources])
   \<and> (namespaceCaches c ns = None \<longrightarrow>
        GetResourcesInNamespace c ns w =
          scanNamespace c ns
            (logPrintf ''[DEBUG] No cache found for namespace '%s', counting objects...''
               [S ns] w))
   \<and> (GetAPIResources c w = (Inr catalog, c1, w1) \<longrightarrow>
        (let rs = filterNamespaced catalog [];
             lp = countLoop c1 ns (DEBUG w1 = ''true'' \<or> DEBUG w1 = ''1'') (len rs) 0 rs
                    (logPrintf
                       (''Counting objects for %d namespaced resources in namespace '%s''
                          @ [CHR 0x27])
                       [I (len rs), S ns] w1)
         in fst (scanNamespace c ns w) = Inr (fst lp)
            \<and> namespaceCaches (fst (snd (scanNamespace c ns w))) ns = Some (fst lp)
            \<and> filter isWarning (logs (snd (snd (scanNamespace c ns w)))) =
                filter isWarning (logs (snd lp))))"
proof -
  have scan: "GetAPIResources c w = (Inr catalog, c1, w1) \<longrightarrow>
        (let rs = filterNamespaced catalog [];
             lp = countLoop c1 ns (DEBUG w1 = ''true'' \<or> DEBUG w1 = ''1'') (len rs) 0 rs
                    (logPrintf
                       (''Counting objects for %d namespaced resources in namespace '%s''
                          @ [CHR 0x27])
                       [I (len rs), S ns] w1)
         in fst (scanNamespace c ns w) = Inr (fst lp)
            \<and> namespaceCaches (fst (snd (scanNamespace c ns w))) ns = Some (fst lp)
            \<and> filter isWarning (logs (snd (snd (scanNamespace c ns w)))) =
                filter isWarning (logs (snd lp)))"
  proof
    assume g: "GetAPIResources c w = (Inr catalog, c1, w1)"
    show "let rs = filterNamespaced catalog [];
             lp = countLoop c1 ns (DEBUG w1 = ''true'' \<or> DEBUG w1 = ''1'') (len rs) 0 rs
                    (logPrintf
                       (''Counting objects for %d namespaced resources in namespace '%s''
                          @ [CHR 0x27])
                       [I (len rs), S ns] w1)
         in fst (scanNamespace c ns w) = Inr (fst lp)
            \<and> namespaceCaches (fst (snd (scanNamespace c ns w))) ns = Some (fst lp)
            \<and> filter isWarning (logs (snd (snd (scanNamespace c ns w)))) =
                filter isWarning (logs (snd lp))"
      unfolding scanNamespace_loop [OF g]
      by (simp add: Let_def warnings_logPrintf)
  qed
  have none: "snd (fst (countResourceObjects c ns resource w)) = None \<longrightarrow>
        Count (fst (countStep c ns dbg n p resource w)) =
          fst (fst (countResourceObjects c ns resource w))
      \<and> filter isWarning (logs (snd (countStep c ns dbg n p resource w))) =
          filter isWarning (logs w)"
    by (simp add: countStep_spec specCount_def specWarnings_def)
  have idx: "i < length resources \<longrightarrow>
        fst (countLoop c ns dbg n p resources w) ! i =
          fst (countStep c ns dbg n (p + int i + 1) (resources ! i)
                 (snd (countLoop c ns dbg n p (take i resources) w)))
      \<and> snd (countLoop c ns dbg n p (take (Suc i) resources) w) =
          snd (countStep c ns dbg n (p + int i + 1) (resources ! i)
                 (snd (countLoop c ns dbg n p (take i resources) w)))"
    by (simp add: countLoop_nth countLoop_take_Suc)
  show ?thesis
    using countStep_permission [of c ns resource w e dbg n p]
      countStep_other_error [of c ns resource w e dbg n p]
      none idx countLoop_length [of c ns dbg n p resources w]
      countLoop_spec [of c ns dbg n p resources w]
      countLoop_warnings [of c ns dbg n p resources w]
      GetResourcesInNamespace_miss [of c ns w] scan
    by blast
qed

theorem C4_count_failures_absorbed_witness:
  "snd (fst (countResourceObjects exampleClient ''default'' (exampleResource ''secrets'')
              exampleWorld)) =
     Some (StatusError 403
             ''secrets is forbidden: User cannot list resource secrets in the namespace'')
   \<and> isPermissionError
        ''secrets is forbidden: User cannot list resource secrets in the namespace''
   \<and> Count (fst (countStep exampleClient ''default'' False 4 3 (exampleResource ''secrets'')
                   exampleWorld)) = 0
   \<and> filter isWarning (logs (snd (countStep exampleClient ''default'' False 4 3
                   (exampleResource ''secrets'') exampleWorld))) = []
   \<and> snd (fst (countResourceObjects exampleClient ''default'' (exampleResource ''configmaps'')
              exampleWorld)) = Some (OtherError ''context deadline exceeded'')
   \<and> \<not> isPermissionError ''context deadline exceeded''
   \<and> Count (fst (countStep exampleClient ''default'' False 4 2 (exampleResource ''configmaps'')
                   exampleWorld)) = 0
   \<and> filter isWarning (logs (snd (countStep exampleClient ''default'' False 4 2
                   (exampleResource ''configmaps'') exampleWorld))) =
       [Printf ''Warning: Failed to count objects for resource %s: %v''
          [S ''configmaps'', S ''context deadline exceeded'']]
   \<and> fst (countResourceObjects exampleClient ''default'' (exampleResource ''pods'') exampleWorld)
       = (2, None)
   \<and> Count (fst (countStep exampleClient ''default'' False 4 1 (exampleResource ''pods'')
                   exampleWorld)) = 2
   \<and> (1::nat) < length (map (\<lambda>r. r\<lparr>Count := 0\<rparr>) exampleCounted)
   \<and> fst (countLoop exampleClient ''default'' False 4 0
             (map (\<lambda>r. r\<lparr>Count := 0\<rparr>) exampleCounted) exampleWorld) ! 1 =
       fst (countStep exampleClient ''default'' False 4 2 (exampleResource ''configmaps'')
              (snd (countStep exampleClient ''default'' False 4 1 (exampleResource ''pods'')
                      exampleWorld)))
   \<and> fst (countLoop exampleClient ''default'' False 4 0
             (map (\<lambda>r. r\<lparr>Count := 0\<rparr>) exampleCounted) exampleWorld) = exampleCounted
   \<and> namespaceCaches exampleClient ''default'' = None
   \<and> fst (GetAPIResources exampleClient exampleWorld) = Inr (collectResources exampleLists [])
   \<and> fst (scanNamespace exampleClient ''default'' exampleWorld) = Inr exampleCounted
   \<and> filter isWarning (logs (snd (snd (scanNamespace exampleClient ''default'' exampleWorld)))) =
       [Printf ''Warning: Failed to count objects for resource %s: %v''
          [S ''configmaps'', S ''context deadline exceeded'']]"
proof -
  note C4 = C4_count_failures_absorbed
  have d: "dynamicClient exampleClient = Some exampleDynamic"
    by (simp add: exampleClient_simps)
  have ns: "Name (exampleResource ''secrets'') = ''secrets''"
    and nc: "Name (exampleResource ''configmaps'') = ''configmaps''"
    and np: "Name (exampleResource ''pods'') = ''pods''"
    by (simp_all add: exampleResource_def collect_exampleLists)
  note p = isPermissionError_examples
  have s1: "snd (fst (countResourceObjects exampleClient ''default'' (exampleResource ''secrets'')
              exampleWorld)) =
     Some (StatusError 403
             ''secrets is forbidden: User cannot list resource secrets in the namespace'')"
    by (simp add: countResourceObjects_example(4) [OF d ns])
  have c1: "snd (fst (countResourceObjects exampleClient ''default''
              (exampleResource ''configmaps'') exampleWorld)) =
      Some (OtherError ''context deadline exceeded'')"
    by (simp add: countResourceObjects_example(3) [OF d nc])
  have p1: "fst (countResourceObjects exampleClient ''default'' (exampleResource ''pods'')
              exampleWorld) = (2, None)"
    by (simp add: countResourceObjects_example(1) [OF d np])
  have A: "Count (fst (countStep exampleClient ''default'' False 4 3 (exampleResource ''secrets'')
                   exampleWorld)) = 0
      \<and> filter isWarning (logs (snd (countStep exampleClient ''default'' False 4 3
                   (exampleResource ''secrets'') exampleWorld))) = filter isWarning (logs exampleWorld)"
    using C4 [where c = exampleClient and ns = "''default''"
                and resource = "exampleResource ''secrets''" and w = exampleWorld
                and e = "StatusError 403
                  ''secrets is forbidden: User cannot list resource secrets in the namespace''"
                and dbg = False and n = 4 and p = 3] s1 p(2)
    by simp
  have B: "Count (fst (countStep exampleClient ''default'' False 4 2
                   (exampleResource ''configmaps'') exampleWorld)) = 0
      \<and> filter isWarning (logs (snd (countStep exampleClient ''default'' False 4 2
                   (exampleResource ''configmaps'') exampleWorld))) =
          filter isWarning (logs exampleWorld) @
            [Printf ''Warning: Failed to count objects for resource %s: %v''
               [S (Name (exampleResource ''configmaps'')), S ''context deadline exceeded'']]"
    using C4 [where c = exampleClient and ns = "''default''"
                and resource = "exampleResource ''configmaps''" and w = exampleWorld
                and e = "OtherError ''context deadline exceeded''"
                and dbg = False and n = 4 and p = 2] c1 p(3)
    by simp
  have P: "Count (fst (countStep exampleClient ''default'' False 4 1 (exampleResource ''pods'')
                   exampleWorld)) = 2"
    using C4 [where c = exampleClient and ns = "''default''"
                and resource = "exampleResource ''pods''" and w = exampleWorld
                and dbg = False and n = 4 and p = 1] p1
    by simp
  let ?rs = "map (\<lambda>r. r\<lparr>Count := 0\<rparr>) exampleCounted"
  have len: "(1::nat) < length ?rs"
    by (simp add: exampleCounted_def)
  have r0: "?rs ! 0 = exampleResource ''pods''" and r1: "?rs ! 1 = exampleResource ''configmaps''"
    and t1: "take 1 ?rs = [exampleResource ''pods'']"
    by (simp_all add: exampleCounted_def exampleResource_def collect_exampleLists)
  have I0: "fst (countLoop exampleClient ''default'' False 4 0 ?rs exampleWorld) ! 1 =
       fst (countStep exampleClient ''default'' False 4 (0 + int 1 + 1) (?rs ! 1)
              (snd (countLoop exampleClient ''default'' False 4 0 (take 1 ?rs) exampleWorld)))"
    using C4 [where c = exampleClient and ns = "''default''" and w = exampleWorld
                and dbg = False and n = 4 and p = 0 and i = 1 and resources = ?rs] len
    by blast
  have k: "snd (countLoop exampleClient ''default'' False 4 0 [exampleResource ''pods'']
                  exampleWorld) =
      snd (countStep exampleClient ''default'' False 4 1 (exampleResource ''pods'') exampleWorld)"
    by (simp add: split_beta)
  have I: "fst (countLoop exampleClient ''default'' False 4 0 ?rs exampleWorld) ! 1 =
       fst (countStep exampleClient ''default'' False 4 2 (exampleResource ''configmaps'')
              (snd (countStep exampleClient ''default'' False 4 1 (exampleResource ''pods'')
                      exampleWorld)))"
    using I0 unfolding r1 t1 k by simp
  have L: "fst (countLoop exampleClient ''default'' False 4 0 ?rs exampleWorld) = exampleCounted"
    using countLoop_example(1) [OF d] .
  have g: "fst (GetAPIResources exampleClient exampleWorld) = Inr (collectResources exampleLists [])"
    using fst_GetAPIResources_example .
  have G: "GetAPIResources exampleClient exampleWorld =
     (Inr (collectResources exampleLists []),
      exampleClient\<lparr>resourcesCache := collectResources exampleLists [],
        resourcesCacheTime := now (remote DiscoveryCall exampleWorld)\<rparr>,
      logPrintf ''[DEBUG] API resource discovery completed in %v, cached %d resources''
        [D (now (remote DiscoveryCall exampleWorld) - now exampleWorld),
         I (len (collectResources exampleLists []))]
        (remote DiscoveryCall
           (logPrintf ''[DEBUG] Cache miss or expired, discovering API resources...'' []
              exampleWorld)))"
    by (rule GetAPIResources_fresh) (simp_all add: exampleClient_simps)
  have d1: "dynamicClient (exampleClient\<lparr>resourcesCache := collectResources exampleLists [],
        resourcesCacheTime := now (remote DiscoveryCall exampleWorld)\<rparr>) = Some exampleDynamic"
    by (simp add: exampleClient_simps)
  have l4: "len ?rs = 4"
    by (simp add: len_def exampleCounted_def)
  from C4 [where c = exampleClient and ns = "''default''" and w = exampleWorld
             and catalog = "collectResources exampleLists []"
             and ?c1.0 = "exampleClient\<lparr>resourcesCache := collectResources exampleLists [],
                    resourcesCacheTime := now (remote DiscoveryCall exampleWorld)\<rparr>"
             and ?w1.0 = "logPrintf
                  ''[DEBUG] API resource discovery completed in %v, cached %d resources''
                  [D (now (remote DiscoveryCall exampleWorld) - now exampleWorld),
                   I (len (collectResources exampleLists []))]
                  (remote DiscoveryCall
                     (logPrintf ''[DEBUG] Cache miss or expired, discovering API resources...'' []
                        exampleWorld))"] G
  have S: "fst (scanNamespace exampleClient ''default'' exampleWorld) = Inr exampleCounted
      \<and> filter isWarning (logs (snd (snd (scanNamespace exampleClient ''default'' exampleWorld)))) =
       [Printf ''Warning: Failed to count objects for resource %s: %v''
          [S ''configmaps'', S ''context deadline exceeded'']]"
    by (simp add: Let_def filterNamespaced_example l4 exampleWorld_simps
          countLoop_example(1,3) [OF d1] warnings_logPrintf)
  have N: "namespaceCaches exampleClient ''default'' = None"
    by (simp add: exampleClient_simps)
  show ?thesis
    using s1 c1 p1 p(2,3) A B P len I L N g S by (simp add: exampleWorld_simps nc)
qed

section \<open>Where the code departs from the specification\<close>

text \<open>
  C1. \<open>Server.clearCache\<close> answers \<open>cache cleared\<close> and clears nothing: on a server whose
  caches were filled 100 seconds ago it returns the server as it was, the catalog entry and
  the entry of namespace \<open>default\<close> still in place, and the request for \<open>default\<close> that
  follows is served from the cache (the stored counts, not one request to the cluster)
  where the claim asks for a fresh scan.
\<close>

theorem C1_clearCache_keeps_caches:
  "Body (fst (clearCache warmServer exampleWorld)) = StatusJSON [(''status'', ''cache cleared'')]
   \<and> fst (snd (clearCache warmServer exampleWorld)) = warmServer
   \<and> resourcesCache warmClient = collectResources exampleLists []
   \<and> namespaceCaches warmClient ''default'' = Some exampleCounted
   \<and> Body (fst (getNamespaceResources unicodeLower (fst (snd (clearCache warmServer exampleWorld)))
                  exampleRequest (snd (snd (clearCache warmServer exampleWorld))))) =
       ResourcesJSON
         \<lparr>resp_resources = exampleCounted, resp_count = 4, resp_totalObjects = 5,
          resp_namespace = ''default'', resp_debug = False\<rparr>
   \<and> calls (snd (snd (getNamespaceResources unicodeLower (fst (snd (clearCache warmServer exampleWorld)))
                  exampleRequest (snd (snd (clearCache warmServer exampleWorld)))))) = []"
proof -
  let ?w = "fmtPrintf ''Cache cleared by user request'' [] exampleWorld"
  have c: "clearCache warmServer exampleWorld =
      (\<lparr>StatusCode = 200, ContentType = ''application/json'',
        Body = StatusJSON [(''status'', ''cache cleared'')]\<rparr>, warmServer, ?w)"
    by (simp add: clearCache_def warmServer_def)
  have n: "now ?w = 1000 * Second"
    by (simp add: exampleWorld_simps)
  show ?thesis
    unfolding c
    by (simp add: warm_response [OF n request_facts(1)] filterLoop_example warmClient_facts
          exampleWorld_simps len_exampleCounted)
qed

text \<open>
  C2. The path with the progress callback filters on \<open>Namespaced\<close> alone. On the example
  cluster, whose discovery lists the deny-listed \<open>bindings\<close>, a scan of \<open>default\<close> through
  \<open>GetResourcesInNamespaceWithCallback\<close> sends a list request for \<open>bindings\<close>, returns
  \<open>bindings\<close> among the counted resources and stores it in the namespace cache; the scan
  of the same cluster through \<open>GetResourcesInNamespace\<close> does neither.
\<close>

theorem C2_callback_path_counts_deny_listed:
  "skipResources ''bindings''
   \<and> fst (GetResourcesInNamespaceWithCallback unicodeLower exampleClient ''default'' None exampleWorld) =
       Inr exampleCountedAll
   \<and> map Name exampleCountedAll =
       [''pods'', ''bindings'', ''configmaps'', ''secrets'', ''deployments'']
   \<and> namespaceCaches
        (fst (snd (GetResourcesInNamespaceWithCallback unicodeLower exampleClient ''default'' None
                     exampleWorld))) ''default'' = Some exampleCountedAll
   \<and> ListCall \<lparr>Group = [], Version = ''v1'', Resource = ''bindings''\<rparr> ''default'' limitedOptions
       \<in> set (calls (snd (snd (GetResourcesInNamespaceWithCallback unicodeLower exampleClient ''default'' None
                                exampleWorld))))
   \<and> fst (GetResourcesInNamespace exampleClient ''default'' exampleWorld) = Inr exampleCounted
   \<and> map Name exampleCounted = [''pods'', ''configmaps'', ''secrets'', ''deployments'']
   \<and> ListCall \<lparr>Group = [], Version = ''v1'', Resource = ''bindings''\<rparr> ''default'' limitedOptions
       \<notin> set (calls (snd (snd (GetResourcesInNamespace exampleClient ''default'' exampleWorld))))"
  by (simp add: example_scan_with_callback example_scan exampleCountedAll_eq exampleCounted_def
        skipResources_def limitedOptions_def unboundedOptions_def)

text \<open>
  C8. The filter loop of \<open>getNamespaceResources\<close> compares the query parameter
  \<open>apiGroup\<close> with \<open>resource.APIVersion\<close>. On the warm example server the request with
  \<open>apiGroup=apps\<close> loses \<open>deployments\<close>, the one entry whose API group is \<open>apps\<close>, and
  returns nothing; the request with \<open>apiGroup=v1\<close> keeps all four entries, none of which
  is in a group \<open>v1\<close>.
\<close>

theorem C8_apiGroup_filter_compares_version:
  "map APIGroup exampleCounted = [[], [], [], ''apps'']
   \<and> map APIVersion exampleCounted = [''v1'', ''v1'', ''v1'', ''v1'']
   \<and> Body (fst (getNamespaceResources unicodeLower warmServer appsRequest exampleWorld)) =
       ResourcesJSON
         \<lparr>resp_resources = [], resp_count = 0, resp_totalObjects = 5,
          resp_namespace = ''default'', resp_debug = False\<rparr>
   \<and> Body (fst (getNamespaceResources unicodeLower warmServer v1Request exampleWorld)) =
       ResourcesJSON
         \<lparr>resp_resources = exampleCounted, resp_count = 4, resp_totalObjects = 5,
          resp_namespace = ''default'', resp_debug = False\<rparr>"
  by (simp add: warm_response [OF exampleWorld_simps(2)] request_facts filterLoop_example
        len_exampleCounted)
     (simp add: exampleCounted_def)

end
